theory Spec2Isabelle
  imports Main "HOL-Library.Word" "HOL-Library.Sublist"
begin

section \<open>The UFS platform glue driver (drivers/scsi/ufs/ufshcd-pltfrm.c)\<close>

text \<open>
  The file reads a device-tree node into the fields of a host bus adapter
  (\<open>struct ufs_hba\<close>) and then hands the adapter to the controller core. The model
  keeps the C control flow: every function takes the state it reads and returns its
  status together with the state it leaves. Status codes and counts are C \<open>int\<close>s,
  modelled as \<open>int\<close>; every \<open>u32\<close> the device tree delivers is a \<open>32 word\<close>.
  Pointers that the file only stores and tests are kept as the number they hold
  (\<open>0\<close> is \<open>NULL\<close>), since \<open>IS_ERR\<close> and \<open>PTR_ERR\<close> work on that number.
\<close>

subsection \<open>Constants of headers\<close>

type_synonym u32 = "32 word"
type_synonym ptr = int

definition NULL :: ptr where
  "NULL = 0"

text \<open>
  The errno values of the kernel ABI (asm-generic/errno-base.h) and the bound of
  linux/err.h. The source writes them by name.
\<close>

definition ENOENT :: int where
  "ENOENT = 2"

definition EIO :: int where
  "EIO = 5"

definition ENOMEM :: int where
  "ENOMEM = 12"

definition ENODEV :: int where
  "ENODEV = 19"

definition EINVAL :: int where
  "EINVAL = 22"

definition ENODATA :: int where
  "ENODATA = 61"

definition EOVERFLOW :: int where
  "EOVERFLOW = 75"

definition EILSEQ :: int where
  "EILSEQ = 84"

definition MAX_ERRNO :: int where
  "MAX_ERRNO = 4095"

definition IS_ERR :: "ptr \<Rightarrow> bool" where
  "IS_ERR p = (- MAX_ERRNO \<le> p \<and> p < 0)"

definition PTR_ERR :: "ptr \<Rightarrow> int" where
  "PTR_ERR p = p"

text \<open>
  The constants of ufs.h and ufshcd.h that the file names. These headers are not
  part of the sources at hand, so the values are parameters of every function that
  uses them.
\<close>

record ufs_defs =
  UFS_VREG_LPM_LOAD_UA :: u32
  UFS_VREG_VCC_MIN_UV :: u32
  UFS_VREG_VCC_MAX_UV :: u32
  UFS_VREG_VCC_1P8_MIN_UV :: u32
  UFS_VREG_VCC_1P8_MAX_UV :: u32
  UFS_VREG_VCCQ_MIN_UV :: u32
  UFS_VREG_VCCQ_MAX_UV :: u32
  UFS_VREG_VCCQ2_MIN_UV :: u32
  UFS_VREG_VCCQ2_MAX_UV :: u32
  REF_CLK_FREQ_26_MHZ :: u32
  REF_CLK_FREQ_52_MHZ :: u32

definition UFSHCD_DEFAULT_LANES_PER_DIRECTION :: u32 where
  "UFSHCD_DEFAULT_LANES_PER_DIRECTION = 2"

definition MAX_PROP_SIZE :: nat where
  "MAX_PROP_SIZE = 32"

subsection \<open>The device-tree node, the device and the adapter\<close>

text \<open>
  The device-tree library (\<open>of_*\<close>) is outside this file. A node is what the
  library answers for it: one field per accessor the file calls, named as the C
  function. An accessor with an out parameter returns its status together with the
  value it stores when the status is 0; \<open>of_get_property\<close> returns \<open>None\<close> for
  \<open>NULL\<close>, else the length in bytes and the big-endian cells already decoded.
\<close>

record device_node =
  of_property_count_strings :: "string \<Rightarrow> int"
  of_get_property :: "string \<Rightarrow> (int \<times> (nat \<Rightarrow> u32)) option"
  of_property_read_u32_array :: "string \<Rightarrow> nat \<Rightarrow> int \<times> (nat \<Rightarrow> u32)"
  of_property_read_string_index :: "string \<Rightarrow> nat \<Rightarrow> int \<times> string"
  of_property_read_u32 :: "string \<Rightarrow> int \<times> u32"
  of_property_read_bool :: "string \<Rightarrow> bool"
  of_parse_phandle :: "string \<Rightarrow> int \<Rightarrow> ptr"

datatype loglevel = KERN_ERR | KERN_WARNING | KERN_INFO | KERN_DEBUG

datatype printk_arg = S string | D int | U u32

type_synonym printk = "loglevel \<times> string \<times> printk_arg list"

text \<open>
  What an allocation of this file leaves behind: a block that \<open>devm_kzalloc\<close>
  ties to the device, which the driver core frees with the device, or the copy of a
  string that \<open>kstrdup\<close> takes from the plain kernel heap, which stays until
  somebody calls \<open>kfree\<close> on it. Each carries the number of its allocation.
\<close>

datatype kobj = Devm_block nat | Kstrdup_copy nat string

text \<open>
  \<open>struct device\<close> with the kernel services the file reaches while it probes this
  device: the resource lookups (one field per function, named as in C), the messages
  printed so far (format string without its newline, and arguments), and the
  allocator: \<open>kmalloc_ok n\<close> tells whether the \<open>n\<close>-th allocation of the probe
  succeeds, \<open>nalloc\<close> counts the allocations made, \<open>kmem\<close> lists what is
  allocated and not freed.
\<close>

record device =
  of_node :: "device_node option"
  dma_mask :: ptr
  coherent_dma_mask :: ptr
  devm_reset_control_get :: "string \<Rightarrow> ptr"
  devm_pinctrl_get :: ptr
  extcon_get_edev_by_phandle :: "int \<Rightarrow> ptr"
  device_property_read_bool :: "string \<Rightarrow> bool"
  klog :: "printk list"
  kmalloc_ok :: "nat \<Rightarrow> bool"
  nalloc :: nat
  kmem :: "kobj list"

record ufs_clk_info =
  clki_name :: "string option"
  min_freq :: u32
  max_freq :: u32

record ufs_vreg =
  vreg_name :: "string option"
  min_uV :: u32
  max_uV :: u32
  low_voltage_sup :: bool
  min_uA :: u32
  max_uA :: u32

record ufs_vreg_info =
  vcc :: "ufs_vreg option"
  vccq :: "ufs_vreg option"
  vccq2 :: "ufs_vreg option"
  vdd_hba :: "ufs_vreg option"

record ufs_hba =
  dev :: device
  var :: ptr
  clk_list_head :: "ufs_clk_info list"
  vreg_info :: ufs_vreg_info
  core_reset :: ptr
  pctrl :: ptr
  extcon :: ptr
  rpm_lvl :: u32
  spm_lvl :: u32
  limit_tx_hs_gear :: u32
  limit_rx_hs_gear :: u32
  limit_tx_pwm_gear :: u32
  limit_rx_pwm_gear :: u32
  scsi_cmd_timeout :: u32
  force_g4 :: bool
  dev_ref_clk_freq :: u32
  lanes_per_direction :: u32

subsection \<open>Kernel services\<close>

definition dev_printk :: "loglevel \<Rightarrow> device \<Rightarrow> string \<Rightarrow> printk_arg list \<Rightarrow> device" where
  "dev_printk lvl d fmt args = d\<lparr>klog := klog d @ [(lvl, fmt, args)]\<rparr>"

definition dev_err :: "device \<Rightarrow> string \<Rightarrow> printk_arg list \<Rightarrow> device" where
  "dev_err = dev_printk KERN_ERR"

definition dev_warn :: "device \<Rightarrow> string \<Rightarrow> printk_arg list \<Rightarrow> device" where
  "dev_warn = dev_printk KERN_WARNING"

definition dev_info :: "device \<Rightarrow> string \<Rightarrow> printk_arg list \<Rightarrow> device" where
  "dev_info = dev_printk KERN_INFO"

definition dev_dbg :: "device \<Rightarrow> string \<Rightarrow> printk_arg list \<Rightarrow> device" where
  "dev_dbg = dev_printk KERN_DEBUG"

text \<open>
  \<open>devm_kzalloc\<close> returns whether the pointer is non-\<open>NULL\<close>; the memory is
  zeroed, which the callers below write out as the zero record. \<open>kstrdup\<close> returns
  the copy, or \<open>None\<close> for \<open>NULL\<close>.
\<close>

definition devm_kzalloc :: "device \<Rightarrow> bool \<times> device" where
  "devm_kzalloc d =
     (kmalloc_ok d (nalloc d),
      d\<lparr>nalloc := Suc (nalloc d),
        kmem := (if kmalloc_ok d (nalloc d) then kmem d @ [Devm_block (nalloc d)] else kmem d)\<rparr>)"

definition kstrdup :: "device \<Rightarrow> string \<Rightarrow> string option \<times> device" where
  "kstrdup d s =
     ((if kmalloc_ok d (nalloc d) then Some s else None),
      d\<lparr>nalloc := Suc (nalloc d),
        kmem := (if kmalloc_ok d (nalloc d) then kmem d @ [Kstrdup_copy (nalloc d) s]
                 else kmem d)\<rparr>)"

text \<open>
  Modelled from the spec: the release of device-managed memory (section 4.2, the
  release of every resource acquired in prior stages), which the driver core
  performs after a probe that failed and which is not part of the sources at hand.
  It frees the blocks tied to the device and nothing else.
\<close>

definition devres_release_all :: "device \<Rightarrow> device" where
  "devres_release_all d =
     d\<lparr>kmem := filter (\<lambda>b. case b of Devm_block n \<Rightarrow> False | Kstrdup_copy n s \<Rightarrow> True)
                  (kmem d)\<rparr>"

text \<open>\<open>snprintf(prop_name, MAX_PROP_SIZE, "%s<suffix>", name)\<close>: the buffer keeps
  at most \<open>MAX_PROP_SIZE - 1\<close> characters.\<close>

definition snprintf :: "nat \<Rightarrow> string \<Rightarrow> string \<Rightarrow> string" where
  "snprintf n name sfx = take (n - 1) (name @ sfx)"

definition ufs_vreg_zero :: ufs_vreg where
  "ufs_vreg_zero =
     \<lparr>vreg_name = None, min_uV = 0, max_uV = 0, low_voltage_sup = False,
      min_uA = 0, max_uA = 0\<rparr>"

subsection \<open>Regulators\<close>

text \<open>
  \<open>ufshcd_populate_vreg(dev, name, out_vreg)\<close>. The result is the status, the
  content of \<open>*out_vreg\<close> afterwards (written only when the status is 0) and the
  device.
\<close>

definition ufshcd_populate_vreg ::
  "ufs_defs \<Rightarrow> device \<Rightarrow> string \<Rightarrow> ufs_vreg option \<Rightarrow> int \<times> ufs_vreg option \<times> device" where
  "ufshcd_populate_vreg k d name out_vreg =
     (case of_node d of
        None \<Rightarrow>
          (0, None, dev_err d ''%s: non DT initialization'' [S ''ufshcd_populate_vreg''])
      | Some np \<Rightarrow>
          if of_parse_phandle np (snprintf MAX_PROP_SIZE name ''-supply'') 0 = NULL
          then (0, None,
                dev_info d ''%s: Unable to find %s regulator, assuming enabled''
                  [S ''ufshcd_populate_vreg'', S (snprintf MAX_PROP_SIZE name ''-supply'')])
          else
            let (ok, d) = devm_kzalloc d in
            if \<not> ok then (- ENOMEM, out_vreg, d)
            else
              let (nm, d) = kstrdup d name;
                  vreg = ufs_vreg_zero\<lparr>vreg_name := nm\<rparr>
              in
              if of_property_read_bool np (snprintf MAX_PROP_SIZE name ''-fixed-regulator'')
              then (0, Some vreg, d)
              else
                let (ret, v) = of_property_read_u32 np (snprintf MAX_PROP_SIZE name ''-max-microamp'') in
                if ret \<noteq> 0
                then (ret, out_vreg,
                      dev_err d ''%s: unable to find %s err %d''
                        [S ''ufshcd_populate_vreg'',
                         S (snprintf MAX_PROP_SIZE name ''-max-microamp''), D ret])
                else
                  let vreg = vreg\<lparr>max_uA := v\<rparr>;
                      (r, v) = of_property_read_u32 np (snprintf MAX_PROP_SIZE name ''-min-microamp'');
                      vreg = vreg\<lparr>min_uA := (if r \<noteq> 0 then UFS_VREG_LPM_LOAD_UA k else v)\<rparr>
                  in
                  if name = ''vcc'' then
                    if of_property_read_bool np ''vcc-supply-1p8''
                    then (0, Some (vreg\<lparr>min_uV := UFS_VREG_VCC_1P8_MIN_UV k,
                                         max_uV := UFS_VREG_VCC_1P8_MAX_UV k\<rparr>), d)
                    else
                      let prop = of_get_property np ''vcc-voltage-level'';
                          (vreg, d) =
                            (case prop of
                               None \<Rightarrow>
                                 (vreg\<lparr>min_uV := UFS_VREG_VCC_MIN_UV k,
                                       max_uV := UFS_VREG_VCC_MAX_UV k\<rparr>,
                                  dev_warn d ''%s vcc-voltage-level property.'' [S ''no''])
                             | Some (len, cells) \<Rightarrow>
                                 if len \<noteq> 2 * 4
                                 then (vreg\<lparr>min_uV := UFS_VREG_VCC_MIN_UV k,
                                             max_uV := UFS_VREG_VCC_MAX_UV k\<rparr>,
                                       dev_warn d ''%s vcc-voltage-level property.''
                                         [S ''invalid format''])
                                 else (vreg\<lparr>min_uV := cells 0, max_uV := cells 1\<rparr>, d));
                          vreg = (if of_property_read_bool np ''vcc-low-voltage-sup''
                                  then vreg\<lparr>low_voltage_sup := True\<rparr> else vreg)
                      in (0, Some vreg, d)
                  else if name = ''vccq'' then
                    (0, Some (vreg\<lparr>min_uV := UFS_VREG_VCCQ_MIN_UV k,
                                     max_uV := UFS_VREG_VCCQ_MAX_UV k\<rparr>), d)
                  else if name = ''vccq2'' then
                    (case of_get_property np ''vccq2-voltage-level'' of
                       None \<Rightarrow>
                         (0, Some (vreg\<lparr>min_uV := UFS_VREG_VCCQ2_MIN_UV k,
                                          max_uV := UFS_VREG_VCCQ2_MAX_UV k\<rparr>),
                          dev_warn d ''%s vccq2-voltage-level property.'' [S ''no''])
                     | Some (len, cells) \<Rightarrow>
                         if len \<noteq> 2 * 4
                         then (0, Some (vreg\<lparr>min_uV := UFS_VREG_VCCQ2_MIN_UV k,
                                               max_uV := UFS_VREG_VCCQ2_MAX_UV k\<rparr>),
                               dev_warn d ''%s vccq2-voltage-level property.''
                                 [S ''invalid format''])
                         else (0, Some (vreg\<lparr>min_uV := cells 0, max_uV := cells 1\<rparr>), d))
                  else (0, Some vreg, d))"

text \<open>
  \<open>ufshcd_parse_regulator_info\<close>: the four roles in the order of the source, stopping
  at the first error.
\<close>

definition ufshcd_parse_regulator_info :: "ufs_defs \<Rightarrow> ufs_hba \<Rightarrow> int \<times> ufs_hba" where
  "ufshcd_parse_regulator_info k hba =
     (let info = vreg_info hba;
          (err, v, d) = ufshcd_populate_vreg k (dev hba) ''vdd-hba'' (vdd_hba info);
          info = info\<lparr>vdd_hba := v\<rparr>
      in
      if err \<noteq> 0 then (err, hba\<lparr>dev := d, vreg_info := info\<rparr>)
      else
        let (err, v, d) = ufshcd_populate_vreg k d ''vcc'' (vcc info);
            info = info\<lparr>vcc := v\<rparr>
        in
        if err \<noteq> 0 then (err, hba\<lparr>dev := d, vreg_info := info\<rparr>)
        else
          let (err, v, d) = ufshcd_populate_vreg k d ''vccq'' (vccq info);
              info = info\<lparr>vccq := v\<rparr>
          in
          if err \<noteq> 0 then (err, hba\<lparr>dev := d, vreg_info := info\<rparr>)
          else
            let (err, v, d) = ufshcd_populate_vreg k d ''vccq2'' (vccq2 info);
                info = info\<lparr>vccq2 := v\<rparr>
            in (err, hba\<lparr>dev := d, vreg_info := info\<rparr>))"

subsection \<open>Reset line, clocks\<close>

definition ufshcd_parse_reset_info :: "ufs_hba \<Rightarrow> int \<times> ufs_hba" where
  "ufshcd_parse_reset_info hba =
     (let hba = hba\<lparr>core_reset := devm_reset_control_get (dev hba) ''core_reset''\<rparr> in
      if IS_ERR (core_reset hba)
      then
        let ret = PTR_ERR (core_reset hba) in
        (ret, hba\<lparr>dev := dev_err (dev hba) ''core_reset unavailable,err = %d'' [D ret],
                  core_reset := NULL\<rparr>)
      else (0, hba))"

text \<open>
  The loop of \<open>ufshcd_parse_clock_info\<close>: \<open>for (i = 0; i < sz; i += 2)\<close>, with the
  status \<open>ret\<close> it holds on entry. \<open>clkfreq\<close> is the array of \<open>sz\<close> cells.
\<close>

function ufshcd_parse_clock_loop ::
  "device_node \<Rightarrow> (nat \<Rightarrow> u32) \<Rightarrow> nat \<Rightarrow> nat \<Rightarrow> int \<Rightarrow> ufs_hba \<Rightarrow> int \<times> ufs_hba" where
  "ufshcd_parse_clock_loop np clkfreq sz i ret hba =
     (if i < sz then
        let (ret, name) = of_property_read_string_index np ''clock-names'' (i div 2) in
        if ret \<noteq> 0 then (ret, hba)
        else
          let (ok, d) = devm_kzalloc (dev hba) in
          if \<not> ok then (- ENOMEM, hba\<lparr>dev := d\<rparr>)
          else
            let (nm, d) = kstrdup d name;
                clki = \<lparr>clki_name = nm, min_freq = clkfreq i, max_freq = clkfreq (i + 1)\<rparr>;
                d = dev_dbg d ''%s: min %u max %u name %s''
                      [S ''freq-table-hz'', U (min_freq clki), U (max_freq clki),
                       S (case nm of None \<Rightarrow> ''(null)'' | Some s \<Rightarrow> s)]
            in ufshcd_parse_clock_loop np clkfreq sz (i + 2) ret
                 (hba\<lparr>dev := d, clk_list_head := clk_list_head hba @ [clki]\<rparr>)
      else (ret, hba))"
  by pat_completeness auto
termination
  by (relation "measure (\<lambda>(np, clkfreq, sz, i, ret, hba). sz - i)") auto

declare ufshcd_parse_clock_loop.simps [simp del]

text \<open>
  \<open>ufshcd_parse_clock_info\<close>. \<open>len\<close> is the byte length of \<open>freq-table-hz\<close> and
  \<open>sz = len / sizeof(u32)\<close> the number of its cells; past the test \<open>len <= 0\<close> the
  division is one of positive numbers. The array \<open>clkfreq\<close> is zeroed by
  \<open>devm_kzalloc\<close> and filled by \<open>of_property_read_u32_array\<close> only when that
  returns 0.
\<close>

definition ufshcd_parse_clock_info :: "ufs_hba \<Rightarrow> int \<times> ufs_hba" where
  "ufshcd_parse_clock_info hba =
     (case of_node (dev hba) of
        None \<Rightarrow> (0, hba)
      | Some np \<Rightarrow>
          let cnt = of_property_count_strings np ''clock-names'';
              (ret, d) =
                (if cnt = 0 \<or> cnt = - EINVAL
                 then (0, dev_info (dev hba) ''%s: Unable to find clocks, assuming enabled''
                            [S ''ufshcd_parse_clock_info''])
                 else if cnt < 0
                 then (cnt, dev_err (dev hba) ''%s: count clock strings failed, err %d''
                              [S ''ufshcd_parse_clock_info'', D cnt])
                 else (0, dev hba));
              hba = hba\<lparr>dev := d\<rparr>
          in
          if cnt \<le> 0 then (ret, hba)
          else
            (case of_get_property np ''freq-table-hz'' of
               None \<Rightarrow>
                 (ret, hba\<lparr>dev := dev_info d ''freq-table-hz property not specified'' []\<rparr>)
             | Some (len, cells) \<Rightarrow>
                 if len \<le> 0 then (ret, hba)
                 else
                   let sz = nat (len div 4) in
                   if int sz \<noteq> 2 * cnt
                   then (- EINVAL, hba\<lparr>dev := dev_err d ''%s len mismatch'' [S ''freq-table-hz'']\<rparr>)
                   else
                     let (ok, d) = devm_kzalloc d in
                     if \<not> ok then (- ENOMEM, hba\<lparr>dev := d\<rparr>)
                     else
                       let (ret, vals) = of_property_read_u32_array np ''freq-table-hz'' sz in
                       if ret \<noteq> 0 \<and> ret \<noteq> - EINVAL
                       then (ret, hba\<lparr>dev := dev_err d ''%s: error reading array %d''
                                                 [S ''freq-table-hz'', D ret]\<rparr>)
                       else
                         let clkfreq = (\<lambda>i. if ret = 0 \<and> i < sz then vals i else 0) in
                         ufshcd_parse_clock_loop np clkfreq sz 0 ret (hba\<lparr>dev := d\<rparr>)))"

subsection \<open>Pin control, external connector and the scalar settings\<close>

definition ufshcd_parse_pm_levels :: "ufs_hba \<Rightarrow> ufs_hba" where
  "ufshcd_parse_pm_levels hba =
     (case of_node (dev hba) of
        None \<Rightarrow> hba
      | Some np \<Rightarrow>
          let (r, v) = of_property_read_u32 np ''rpm-level'';
              hba = hba\<lparr>rpm_lvl := (if r \<noteq> 0 then - 1 else v)\<rparr>;
              (r, v) = of_property_read_u32 np ''spm-level''
          in hba\<lparr>spm_lvl := (if r \<noteq> 0 then - 1 else v)\<rparr>)"

definition ufshcd_parse_pinctrl_info :: "ufs_hba \<Rightarrow> int \<times> ufs_hba" where
  "ufshcd_parse_pinctrl_info hba =
     (let hba = hba\<lparr>pctrl := devm_pinctrl_get (dev hba)\<rparr> in
      if IS_ERR (pctrl hba) then (PTR_ERR (pctrl hba), hba\<lparr>pctrl := NULL\<rparr>)
      else (0, hba))"

definition ufshcd_parse_extcon_info :: "ufs_hba \<Rightarrow> int \<times> ufs_hba" where
  "ufshcd_parse_extcon_info hba =
     (let e = extcon_get_edev_by_phandle (dev hba) 0 in
      if IS_ERR e \<and> PTR_ERR e \<noteq> - ENODEV then (PTR_ERR e, hba)
      else (0, if \<not> IS_ERR e then hba\<lparr>extcon := e\<rparr> else hba))"

definition ufshcd_parse_gear_limits :: "ufs_hba \<Rightarrow> ufs_hba" where
  "ufshcd_parse_gear_limits hba =
     (case of_node (dev hba) of
        None \<Rightarrow> hba
      | Some np \<Rightarrow>
          let (r, v) = of_property_read_u32 np ''limit-tx-hs-gear'';
              hba = hba\<lparr>limit_tx_hs_gear := (if r \<noteq> 0 then - 1 else v)\<rparr>;
              (r, v) = of_property_read_u32 np ''limit-rx-hs-gear'';
              hba = hba\<lparr>limit_rx_hs_gear := (if r \<noteq> 0 then - 1 else v)\<rparr>;
              (r, v) = of_property_read_u32 np ''limit-tx-pwm-gear'';
              hba = hba\<lparr>limit_tx_pwm_gear := (if r \<noteq> 0 then - 1 else v)\<rparr>;
              (r, v) = of_property_read_u32 np ''limit-rx-pwm-gear''
          in hba\<lparr>limit_rx_pwm_gear := (if r \<noteq> 0 then - 1 else v)\<rparr>)"

definition ufshcd_parse_cmd_timeout :: "ufs_hba \<Rightarrow> ufs_hba" where
  "ufshcd_parse_cmd_timeout hba =
     (case of_node (dev hba) of
        None \<Rightarrow> hba
      | Some np \<Rightarrow>
          let (r, v) = of_property_read_u32 np ''scsi-cmd-timeout''
          in hba\<lparr>scsi_cmd_timeout := (if r \<noteq> 0 then 0 else v)\<rparr>)"

definition ufshcd_parse_force_g4_flag :: "ufs_hba \<Rightarrow> ufs_hba" where
  "ufshcd_parse_force_g4_flag hba =
     (if device_property_read_bool (dev hba) ''force-g4''
      then hba\<lparr>force_g4 := True\<rparr> else hba\<lparr>force_g4 := False\<rparr>)"

text \<open>
  \<open>ufshcd_parse_dev_ref_clk_freq\<close>. The field is a \<open>u32\<close>: the read stores into it
  when it returns 0, and the comparisons are the unsigned ones of C.
\<close>

definition ufshcd_parse_dev_ref_clk_freq :: "ufs_defs \<Rightarrow> ufs_hba \<Rightarrow> ufs_hba" where
  "ufshcd_parse_dev_ref_clk_freq k hba =
     (case of_node (dev hba) of
        None \<Rightarrow> hba
      | Some np \<Rightarrow>
          let (ret, v) = of_property_read_u32 np ''dev-ref-clk-freq'';
              hba = (if ret = 0 then hba\<lparr>dev_ref_clk_freq := v\<rparr> else hba)
          in
          if ret \<noteq> 0 \<or> dev_ref_clk_freq hba < 0 \<or> dev_ref_clk_freq hba > REF_CLK_FREQ_52_MHZ k
          then hba\<lparr>dev_ref_clk_freq := REF_CLK_FREQ_26_MHZ k\<rparr>
          else hba)"

text \<open>
  \<open>ufshcd_init_lanes_per_dir\<close> passes \<open>dev->of_node\<close> on without a test; for a
  \<open>NULL\<close> node the device-tree library finds no property and returns \<open>-EINVAL\<close>.
\<close>

definition ufshcd_init_lanes_per_dir :: "ufs_hba \<Rightarrow> ufs_hba" where
  "ufshcd_init_lanes_per_dir hba =
     (let (ret, v) = (case of_node (dev hba) of
                        None \<Rightarrow> (- EINVAL, 0)
                      | Some np \<Rightarrow> of_property_read_u32 np ''lanes-per-direction'')
      in
      if ret \<noteq> 0
      then hba\<lparr>dev := dev_dbg (dev hba) ''%s: failed to read lanes-per-direction, ret=%d''
                          [S ''ufshcd_init_lanes_per_dir'', D ret],
               lanes_per_direction := UFSHCD_DEFAULT_LANES_PER_DIRECTION\<rparr>
      else hba\<lparr>lanes_per_direction := v\<rparr>)"

subsection \<open>The probe\<close>

text \<open>
  The controller core (ufshcd.c) is outside this file: \<open>ufshcd_alloc_host\<close> returns
  its status and the new adapter, \<open>ufshcd_init\<close> its status and the adapter as it
  leaves it.
\<close>

record ufshcd_core =
  ufshcd_alloc_host :: "device \<Rightarrow> int \<times> ufs_hba"
  ufshcd_init :: "ufs_hba \<Rightarrow> ptr \<Rightarrow> int \<Rightarrow> int \<times> ufs_hba"

text \<open>
  The steps of the probe from the first parser on, in a log that the probe extends
  with each step it runs and the status the step returned (0 for a \<open>void\<close> one).
\<close>

datatype step =
    Parse_clock_info
  | Parse_regulator_info
  | Parse_reset_info
  | Parse_pinctrl_info
  | Parse_dev_ref_clk_freq
  | Parse_pm_levels
  | Parse_gear_limits
  | Parse_cmd_timeout
  | Parse_force_g4_flag
  | Parse_extcon_info
  | Init_lanes_per_dir
  | Ufshcd_init
  | Platform_set_drvdata
  | Pm_runtime_set_active
  | Pm_runtime_enable
  | Ufshcd_dealloc_host

text \<open>
  The platform device: its \<open>struct device\<close>, what \<open>devm_ioremap_resource\<close> returns
  for the first memory resource, what \<open>platform_get_irq\<close> returns for an index, the
  driver data, and the log of steps.
\<close>

record platform_device =
  pdev_dev :: device
  devm_ioremap_resource :: ptr
  platform_get_irq :: "nat \<Rightarrow> int"
  drvdata :: "ufs_hba option"
  calls :: "(step \<times> int) list"

definition called :: "step \<Rightarrow> int \<Rightarrow> platform_device \<Rightarrow> platform_device" where
  "called s r pdev = pdev\<lparr>calls := calls pdev @ [(s, r)]\<rparr>"

text \<open>The exit through the label \<open>dealloc_host\<close>. The adapter is gone; the device
  keeps what was printed.\<close>

definition dealloc_host :: "platform_device \<Rightarrow> ufs_hba \<Rightarrow> int \<Rightarrow> int \<times> platform_device" where
  "dealloc_host pdev hba err =
     (err, called Ufshcd_dealloc_host 0 (pdev\<lparr>pdev_dev := dev hba\<rparr>))"

text \<open>
  \<open>ufshcd_pltfrm_init(pdev, var)\<close>. \<open>hba->dev\<close> is \<open>&pdev->dev\<close>: the adapter
  carries the device while the parsers run, and the device is written back when the
  probe returns.
\<close>

definition ufshcd_pltfrm_init ::
  "ufs_defs \<Rightarrow> ufshcd_core \<Rightarrow> platform_device \<Rightarrow> ptr \<Rightarrow> int \<times> platform_device" where
  "ufshcd_pltfrm_init k core pdev variant =
     (let mmio_base = devm_ioremap_resource pdev in
      if IS_ERR mmio_base then (PTR_ERR mmio_base, pdev)
      else
        let irq = platform_get_irq pdev 0 in
        if irq < 0
        then (- ENODEV,
              pdev\<lparr>pdev_dev := dev_err (pdev_dev pdev) ''IRQ resource not available'' []\<rparr>)
        else
          let (err, hba) = ufshcd_alloc_host core (pdev_dev pdev) in
          if err \<noteq> 0
          then (err, pdev\<lparr>pdev_dev := dev_err (pdev_dev pdev) ''Allocation failed'' []\<rparr>)
          else
            let hba = hba\<lparr>dev := pdev_dev pdev, var := variant\<rparr>;
                (err, hba) = ufshcd_parse_clock_info hba;
                pdev = called Parse_clock_info err pdev
            in
            if err \<noteq> 0
            then dealloc_host pdev
                   (hba\<lparr>dev := dev_err (dev hba) ''%s: clock parse failed %d''
                                    [S ''ufshcd_pltfrm_init'', D err]\<rparr>) err
            else
              let (err, hba) = ufshcd_parse_regulator_info k hba;
                  pdev = called Parse_regulator_info err pdev
              in
              if err \<noteq> 0
              then dealloc_host pdev
                     (hba\<lparr>dev := dev_err (dev hba) ''%s: regulator init failed %d''
                                      [S ''ufshcd_pltfrm_init'', D err]\<rparr>) err
              else
                let (err, hba) = ufshcd_parse_reset_info hba;
                    pdev = called Parse_reset_info err pdev
                in
                if err \<noteq> 0
                then dealloc_host pdev
                       (hba\<lparr>dev := dev_err (dev hba) ''%s: reset parse failed %d''
                                        [S ''ufshcd_pltfrm_init'', D err]\<rparr>) err
                else
                  let (err, hba) = ufshcd_parse_pinctrl_info hba;
                      pdev = called Parse_pinctrl_info err pdev;
                      hba = (if err \<noteq> 0
                             then hba\<lparr>dev := dev_dbg (dev hba) ''%s: unable to parse pinctrl data %d''
                                                     [S ''ufshcd_pltfrm_init'', D err]\<rparr>
                             else hba);
                      hba = ufshcd_parse_dev_ref_clk_freq k hba;
                      pdev = called Parse_dev_ref_clk_freq 0 pdev;
                      hba = ufshcd_parse_pm_levels hba;
                      pdev = called Parse_pm_levels 0 pdev;
                      hba = ufshcd_parse_gear_limits hba;
                      pdev = called Parse_gear_limits 0 pdev;
                      hba = ufshcd_parse_cmd_timeout hba;
                      pdev = called Parse_cmd_timeout 0 pdev;
                      hba = ufshcd_parse_force_g4_flag hba;
                      pdev = called Parse_force_g4_flag 0 pdev;
                      (err, hba) = ufshcd_parse_extcon_info hba;
                      pdev = called Parse_extcon_info err pdev
                  in
                  if err \<noteq> 0 then dealloc_host pdev hba err
                  else
                    let hba = (if dma_mask (dev hba) = NULL
                               then hba\<lparr>dev := (dev hba)\<lparr>dma_mask := coherent_dma_mask (dev hba)\<rparr>\<rparr>
                               else hba);
                        hba = ufshcd_init_lanes_per_dir hba;
                        pdev = called Init_lanes_per_dir 0 pdev;
                        (err, hba) = ufshcd_init core hba mmio_base irq;
                        pdev = called Ufshcd_init err pdev
                    in
                    if err \<noteq> 0
                    then dealloc_host pdev
                           (hba\<lparr>dev := dev_err (dev hba) ''Initialization failed'' []\<rparr>) err
                    else
                      let pdev = called Platform_set_drvdata 0 (pdev\<lparr>drvdata := Some hba\<rparr>);
                          pdev = called Pm_runtime_set_active 0 pdev;
                          pdev = called Pm_runtime_enable 0 pdev
                      in (0, pdev\<lparr>pdev_dev := dev hba\<rparr>))"

subsection \<open>A device tree given as a table of properties\<close>

text \<open>
  Modelled from the spec: the hardware-description reader (the \<open>of_*\<close> functions of
  the device-tree library, not part of the sources at hand), over a description that
  is a table from property names to typed values, as section 6 of the specification
  lists them: a string list, or an array of \<open>u32\<close> cells (a boolean property is an
  empty array, a phandle one cell). The error codes are the ones the library
  documents: \<open>-EINVAL\<close> (\<open>NULL\<close>, \<open>false\<close>) for a missing property,
  \<open>-ENODATA\<close> for a string list or an index that is not there,
  \<open>-EOVERFLOW\<close> for too few cells; a property read at the other type is answered
  with an error. This gives the theorems below concrete descriptions to run on; the
  theorems themselves hold for every reader.
\<close>

datatype dt_val = Dt_strings "string list" | Dt_cells "u32 list"

type_synonym devicetree = "(string \<times> dt_val) list"

fun dt_length :: "dt_val \<Rightarrow> int" where
  "dt_length (Dt_strings ss) = int (sum_list (map (\<lambda>s. length s + 1) ss))"
| "dt_length (Dt_cells cs) = 4 * int (length cs)"

definition dt_cell :: "u32 list \<Rightarrow> nat \<Rightarrow> u32" where
  "dt_cell cs i = (if i < length cs then cs ! i else 0)"

definition dt_node :: "devicetree \<Rightarrow> device_node" where
  "dt_node dt =
     \<lparr>of_property_count_strings =
        (\<lambda>p. case map_of dt p of
                None \<Rightarrow> - EINVAL
              | Some (Dt_strings ss) \<Rightarrow> if ss = [] then - ENODATA else int (length ss)
              | Some (Dt_cells cs) \<Rightarrow> if cs = [] then - ENODATA else - EILSEQ),
      of_get_property =
        (\<lambda>p. case map_of dt p of
                None \<Rightarrow> None
              | Some (Dt_strings ss) \<Rightarrow> Some (dt_length (Dt_strings ss), \<lambda>i. 0)
              | Some (Dt_cells cs) \<Rightarrow> Some (dt_length (Dt_cells cs), dt_cell cs)),
      of_property_read_u32_array =
        (\<lambda>p n. case map_of dt p of
                None \<Rightarrow> (- EINVAL, \<lambda>i. 0)
              | Some (Dt_strings ss) \<Rightarrow> (- EOVERFLOW, \<lambda>i. 0)
              | Some (Dt_cells cs) \<Rightarrow>
                  if length cs < n then (- EOVERFLOW, \<lambda>i. 0) else (0, dt_cell cs)),
      of_property_read_string_index =
        (\<lambda>p i. case map_of dt p of
                None \<Rightarrow> (- EINVAL, [])
              | Some (Dt_strings ss) \<Rightarrow> if i < length ss then (0, ss ! i) else (- ENODATA, [])
              | Some (Dt_cells cs) \<Rightarrow> (- EILSEQ, [])),
      of_property_read_u32 =
        (\<lambda>p. case map_of dt p of
                None \<Rightarrow> (- EINVAL, 0)
              | Some (Dt_strings ss) \<Rightarrow> (- EOVERFLOW, 0)
              | Some (Dt_cells cs) \<Rightarrow> if cs = [] then (- EOVERFLOW, 0) else (0, hd cs)),
      of_property_read_bool = (\<lambda>p. map_of dt p \<noteq> None),
      of_parse_phandle =
        (\<lambda>p i. case map_of dt p of
                Some (Dt_cells cs) \<Rightarrow> if 0 \<le> i \<and> nat i < length cs then 1 else NULL
              | _ \<Rightarrow> NULL)\<rparr>"

text \<open>
  A device with that description, in which every other lookup succeeds (there is no
  external connector: \<open>-ENODEV\<close>) and no allocation fails; an adapter fresh from
  \<open>ufshcd_alloc_host\<close>, with every field zero; a controller core that allocates
  such an adapter and whose initialisation succeeds; and usual values for the
  constants of ufs.h.
\<close>

definition dt_device :: "devicetree \<Rightarrow> device" where
  "dt_device dt =
     \<lparr>of_node = Some (dt_node dt), dma_mask = NULL, coherent_dma_mask = 4096,
      devm_reset_control_get = (\<lambda>id. 8192), devm_pinctrl_get = 12288,
      extcon_get_edev_by_phandle = (\<lambda>i. - ENODEV),
      device_property_read_bool = (\<lambda>p. map_of dt p \<noteq> None),
      klog = [], kmalloc_ok = (\<lambda>n. True), nalloc = 0, kmem = []\<rparr>"

definition hba_zero :: "device \<Rightarrow> ufs_hba" where
  "hba_zero d =
     \<lparr>dev = d, var = NULL, clk_list_head = [],
      vreg_info = \<lparr>vcc = None, vccq = None, vccq2 = None, vdd_hba = None\<rparr>,
      core_reset = NULL, pctrl = NULL, extcon = NULL, rpm_lvl = 0, spm_lvl = 0,
      limit_tx_hs_gear = 0, limit_rx_hs_gear = 0, limit_tx_pwm_gear = 0,
      limit_rx_pwm_gear = 0, scsi_cmd_timeout = 0, force_g4 = False,
      dev_ref_clk_freq = 0, lanes_per_direction = 0\<rparr>"

definition core_ok :: ufshcd_core where
  "core_ok = \<lparr>ufshcd_alloc_host = (\<lambda>d. (0, hba_zero d)),
              ufshcd_init = (\<lambda>hba mmio irq. (0, hba))\<rparr>"

definition dt_pdev :: "devicetree \<Rightarrow> platform_device" where
  "dt_pdev dt =
     \<lparr>pdev_dev = dt_device dt, devm_ioremap_resource = 65536,
      platform_get_irq = (\<lambda>i. 42), drvdata = None, calls = []\<rparr>"

definition ufs_h :: ufs_defs where
  "ufs_h =
     \<lparr>UFS_VREG_LPM_LOAD_UA = 1000,
      UFS_VREG_VCC_MIN_UV = 2700000, UFS_VREG_VCC_MAX_UV = 3600000,
      UFS_VREG_VCC_1P8_MIN_UV = 1700000, UFS_VREG_VCC_1P8_MAX_UV = 1950000,
      UFS_VREG_VCCQ_MIN_UV = 1100000, UFS_VREG_VCCQ_MAX_UV = 1300000,
      UFS_VREG_VCCQ2_MIN_UV = 1650000, UFS_VREG_VCCQ2_MAX_UV = 1950000,
      REF_CLK_FREQ_26_MHZ = 1, REF_CLK_FREQ_52_MHZ = 3\<rparr>"

text \<open>Descriptions used below.\<close>

definition dt_vcc_fixed :: devicetree where
  "dt_vcc_fixed = [(''vcc-supply'', Dt_cells [1]), (''vcc-fixed-regulator'', Dt_cells [])]"

definition dt_vcc_no_current :: devicetree where
  "dt_vcc_no_current = [(''vcc-supply'', Dt_cells [1])]"

definition dt_vccq2_plain :: devicetree where
  "dt_vccq2_plain = [(''vccq2-supply'', Dt_cells [1])]"

definition dt_vcc_fixed_1p8 :: devicetree where
  "dt_vcc_fixed_1p8 =
     [(''vcc-supply'', Dt_cells [1]), (''vcc-fixed-regulator'', Dt_cells []),
      (''vcc-supply-1p8'', Dt_cells [])]"

definition dt_vcc_1p8 :: devicetree where
  "dt_vcc_1p8 =
     [(''vcc-supply'', Dt_cells [1]), (''vcc-max-microamp'', Dt_cells [500000]),
      (''vcc-supply-1p8'', Dt_cells []),
      (''vcc-voltage-level'', Dt_cells [2700000, 3600000]),
      (''vcc-low-voltage-sup'', Dt_cells [])]"

definition dt_vcc_short_level :: devicetree where
  "dt_vcc_short_level =
     [(''vcc-supply'', Dt_cells [1]), (''vcc-max-microamp'', Dt_cells [500000]),
      (''vcc-voltage-level'', Dt_cells [3300000])]"

definition dt_vcc_short_level_no_current :: devicetree where
  "dt_vcc_short_level_no_current =
     [(''vcc-supply'', Dt_cells [1]), (''vcc-voltage-level'', Dt_cells [3300000])]"

definition dt_vcc_short_level_fixed :: devicetree where
  "dt_vcc_short_level_fixed =
     [(''vcc-supply'', Dt_cells [1]), (''vcc-fixed-regulator'', Dt_cells []),
      (''vcc-voltage-level'', Dt_cells [3300000])]"

definition dt_ref_clk_999 :: devicetree where
  "dt_ref_clk_999 = [(''dev-ref-clk-freq'', Dt_cells [999])]"

definition dt_two_clocks :: devicetree where
  "dt_two_clocks =
     [(''clock-names'', Dt_strings [''core_clk'', ''ref_clk'']),
      (''freq-table-hz'', Dt_cells [50000000, 200000000, 0, 19200000])]"

definition dt_clk_empty_table :: devicetree where
  "dt_clk_empty_table =
     [(''clock-names'', Dt_strings [''ref_clk'']), (''freq-table-hz'', Dt_cells [])]"

definition dt_clk_no_table :: devicetree where
  "dt_clk_no_table = [(''clock-names'', Dt_strings [''ref_clk''])]"

definition dt_clk_three_cells :: devicetree where
  "dt_clk_three_cells =
     [(''clock-names'', Dt_strings [''ref_clk'']),
      (''freq-table-hz'', Dt_cells [100000, 200000, 300000])]"

text \<open>
  A platform device whose reset control is missing, and a controller core whose
  initialisation fails.
\<close>

definition dt_pdev_no_reset :: platform_device where
  "dt_pdev_no_reset =
     (dt_pdev [])\<lparr>pdev_dev := (dt_device [])\<lparr>devm_reset_control_get := (\<lambda>id. - ENOENT)\<rparr>\<rparr>"

definition core_init_fails :: ufshcd_core where
  "core_init_fails = core_ok\<lparr>ufshcd_init := (\<lambda>hba mmio irq. (- EIO, hba))\<rparr>"

subsection \<open>What the specification says of the clock table\<close>

text \<open>
  A node declares the clock names \<open>names\<close> and the frequency table \<open>freqs\<close> when
  the reader answers for them: the count and each name by index for
  \<open>clock-names\<close>, the byte length and the cells for \<open>freq-table-hz\<close>. The
  descriptors the specification expects are one per name, in order, with the pair of
  cells at \<open>2j\<close> and \<open>2j + 1\<close>.
\<close>

definition clock_table :: "device_node \<Rightarrow> string list \<Rightarrow> u32 list \<Rightarrow> bool" where
  "clock_table np names freqs \<longleftrightarrow>
     of_property_count_strings np ''clock-names'' = int (length names)
     \<and> list_all (\<lambda>i. of_property_read_string_index np ''clock-names'' i = (0, names ! i))
          [0..<length names]
     \<and> (case of_get_property np ''freq-table-hz'' of
           None \<Rightarrow> False
         | Some (len, cells) \<Rightarrow> len = 4 * int (length freqs))
     \<and> fst (of_property_read_u32_array np ''freq-table-hz'' (length freqs)) = 0
     \<and> list_all (\<lambda>i. snd (of_property_read_u32_array np ''freq-table-hz'' (length freqs)) i
                        = freqs ! i)
          [0..<length freqs]"

definition clock_descriptors :: "string list \<Rightarrow> u32 list \<Rightarrow> ufs_clk_info list" where
  "clock_descriptors names freqs =
     map (\<lambda>j. \<lparr>clki_name = Some (names ! j), min_freq = freqs ! (2 * j),
                max_freq = freqs ! (2 * j + 1)\<rparr>)
       [0..<length names]"

subsection \<open>What a probe run did, and what stays of a device\<close>

text \<open>
  The steps a probe run added to the log, and the order in which a probe that
  succeeds runs its steps.
\<close>

definition probe_calls ::
  "ufs_defs \<Rightarrow> ufshcd_core \<Rightarrow> platform_device \<Rightarrow> ptr \<Rightarrow> (step \<times> int) list" where
  "probe_calls k core pdev variant =
     drop (length (calls pdev)) (calls (snd (ufshcd_pltfrm_init k core pdev variant)))"

definition probe_order :: "step list" where
  "probe_order =
     [Parse_clock_info, Parse_regulator_info, Parse_reset_info, Parse_pinctrl_info,
      Parse_dev_ref_clk_freq, Parse_pm_levels, Parse_gear_limits, Parse_cmd_timeout,
      Parse_force_g4_flag, Parse_extcon_info, Init_lanes_per_dir, Ufshcd_init,
      Platform_set_drvdata, Pm_runtime_set_active, Pm_runtime_enable]"

text \<open>The stages whose failure the specification calls mandatory.\<close>

definition mandatory :: "step \<Rightarrow> bool" where
  "mandatory s \<longleftrightarrow>
     s \<in> {Parse_clock_info, Parse_regulator_info, Parse_extcon_info, Ufshcd_init}"

text \<open>
  The parsers print and allocate, and leave every other field of the device alone.
\<close>

definition same_device :: "device \<Rightarrow> device \<Rightarrow> bool" where
  "same_device d d' \<longleftrightarrow>
     of_node d' = of_node d
     \<and> dma_mask d' = dma_mask d
     \<and> coherent_dma_mask d' = coherent_dma_mask d
     \<and> devm_reset_control_get d' = devm_reset_control_get d
     \<and> devm_pinctrl_get d' = devm_pinctrl_get d
     \<and> extcon_get_edev_by_phandle d' = extcon_get_edev_by_phandle d
     \<and> device_property_read_bool d' = device_property_read_bool d
     \<and> kmalloc_ok d' = kmalloc_ok d"

text \<open>
  The kernel's convention for a status: 0, or a negative errno. For the functions
  outside this file it is an assumption on their answers.
\<close>

definition of_convention :: "device_node \<Rightarrow> bool" where
  "of_convention np \<longleftrightarrow>
     (\<forall>p n. fst (of_property_read_u32_array np p n) \<le> 0)
     \<and> (\<forall>p i. fst (of_property_read_string_index np p i) \<le> 0)
     \<and> (\<forall>p. fst (of_property_read_u32 np p) \<le> 0)"

definition core_convention :: "ufshcd_core \<Rightarrow> bool" where
  "core_convention core \<longleftrightarrow>
     (\<forall>hba mmio irq. fst (ufshcd_init core hba mmio irq) \<le> 0)"

definition status_convention :: "ufshcd_core \<Rightarrow> platform_device \<Rightarrow> bool" where
  "status_convention core pdev \<longleftrightarrow>
     (case of_node (pdev_dev pdev) of None \<Rightarrow> True | Some np \<Rightarrow> of_convention np)
     \<and> core_convention core"

section \<open>Properties\<close>

lemma snprintf_vcc:
  "snprintf MAX_PROP_SIZE ''vcc'' ''-supply'' = ''vcc-supply''"
  "snprintf MAX_PROP_SIZE ''vcc'' ''-fixed-regulator'' = ''vcc-fixed-regulator''"
  "snprintf MAX_PROP_SIZE ''vcc'' ''-max-microamp'' = ''vcc-max-microamp''"
  "snprintf MAX_PROP_SIZE ''vcc'' ''-min-microamp'' = ''vcc-min-microamp''"
  by (simp_all add: snprintf_def MAX_PROP_SIZE_def)

lemmas vreg_defs =
  ufshcd_populate_vreg_def Let_def split_def devm_kzalloc_def kstrdup_def ufs_vreg_zero_def

lemmas dt_defs =
  dt_node_def dt_device_def dt_cell_def NULL_def ufs_h_def hba_zero_def
  dev_printk_def dev_err_def dev_warn_def dev_info_def dev_dbg_def
  EINVAL_def ENOMEM_def ENODEV_def ENODATA_def EOVERFLOW_def EILSEQ_def

subsection \<open>Regulators\<close>

text \<open>
  C10. For the role \<open>vcc\<close> with its supply present and \<open>vcc-supply-1p8\<close> set, the
  parser either fails and leaves \<open>*out_vreg\<close> alone, or yields a descriptor whose
  \<open>low_voltage_sup\<close> is false; and neither the status nor the descriptor depends on
  whether \<open>vcc-low-voltage-sup\<close> is present, which this branch never reads.
\<close>

theorem vcc_1p8_low_voltage_flag:
  assumes "of_node d = Some np"
    and "of_parse_phandle np ''vcc-supply'' 0 \<noteq> NULL"
    and "of_property_read_bool np ''vcc-supply-1p8''"
  shows "(case ufshcd_populate_vreg k d ''vcc'' out_vreg of
            (ret, out', d') \<Rightarrow>
              (ret = 0 \<and> (\<exists>v. out' = Some v \<and> \<not> low_voltage_sup v))
              \<or> (ret \<noteq> 0 \<and> out' = out_vreg))
         \<and> (\<forall>b. let np' = np\<lparr>of_property_read_bool :=
                                 (of_property_read_bool np)(''vcc-low-voltage-sup'' := b)\<rparr>;
                     r = ufshcd_populate_vreg k d ''vcc'' out_vreg;
                     r' = ufshcd_populate_vreg k (d\<lparr>of_node := Some np'\<rparr>) ''vcc'' out_vreg
                 in fst r' = fst r \<and> fst (snd r') = fst (snd r))"
  using assms
  by (auto simp: vreg_defs snprintf_vcc ENOMEM_def)

theorem vcc_1p8_low_voltage_flag_witness:
  "of_node (dt_device dt_vcc_1p8) = Some (dt_node dt_vcc_1p8)
   \<and> of_parse_phandle (dt_node dt_vcc_1p8) ''vcc-supply'' 0 \<noteq> NULL
   \<and> of_property_read_bool (dt_node dt_vcc_1p8) ''vcc-supply-1p8''
   \<and> of_property_read_bool (dt_node dt_vcc_1p8) ''vcc-low-voltage-sup''
   \<and> fst (ufshcd_populate_vreg ufs_h (dt_device dt_vcc_1p8) ''vcc'' None) = 0
   \<and> (\<exists>v. fst (snd (ufshcd_populate_vreg ufs_h (dt_device dt_vcc_1p8) ''vcc'' None)) = Some v
          \<and> low_voltage_sup v = False)"
proof -
  have h1: "of_node (dt_device dt_vcc_1p8) = Some (dt_node dt_vcc_1p8)"
    by (simp add: dt_device_def)
  have h2: "of_parse_phandle (dt_node dt_vcc_1p8) ''vcc-supply'' 0 \<noteq> NULL"
    by (simp add: dt_node_def dt_vcc_1p8_def NULL_def)
  have h3: "of_property_read_bool (dt_node dt_vcc_1p8) ''vcc-supply-1p8''"
    by (simp add: dt_node_def dt_vcc_1p8_def)
  have h4: "of_property_read_bool (dt_node dt_vcc_1p8) ''vcc-low-voltage-sup''"
    by (simp add: dt_node_def dt_vcc_1p8_def)
  have h5: "fst (ufshcd_populate_vreg ufs_h (dt_device dt_vcc_1p8) ''vcc'' None) = 0"
    by (simp add: vreg_defs snprintf_vcc dt_defs dt_vcc_1p8_def)
  show ?thesis
    using h1 h2 h3 h4 h5
      vcc_1p8_low_voltage_flag [OF h1 h2 h3, where k = ufs_h and out_vreg = None]
    by (auto simp: split_def)
qed

text \<open>
  C7, as the code has it. For the role \<open>vcc\<close> with its supply present, the
  descriptor allocated, \<open>vcc-fixed-regulator\<close> not set, \<open>vcc-max-microamp\<close>
  readable and \<open>vcc-supply-1p8\<close> set, the parser succeeds and the descriptor's
  voltage range is the fixed 1.8V range, whatever \<open>vcc-voltage-level\<close> holds.
\<close>

theorem vcc_1p8_range:
  assumes "of_node d = Some np"
    and "of_parse_phandle np ''vcc-supply'' 0 \<noteq> NULL"
    and "kmalloc_ok d (nalloc d)"
    and "\<not> of_property_read_bool np ''vcc-fixed-regulator''"
    and "fst (of_property_read_u32 np ''vcc-max-microamp'') = 0"
    and "of_property_read_bool np ''vcc-supply-1p8''"
  shows "\<exists>vreg d'. ufshcd_populate_vreg k d ''vcc'' out_vreg = (0, Some vreg, d')
           \<and> min_uV vreg = UFS_VREG_VCC_1P8_MIN_UV k
           \<and> max_uV vreg = UFS_VREG_VCC_1P8_MAX_UV k"
  using assms
  by (simp add: vreg_defs snprintf_vcc)

theorem vcc_1p8_range_witness:
  "of_node (dt_device dt_vcc_1p8) = Some (dt_node dt_vcc_1p8)
   \<and> of_parse_phandle (dt_node dt_vcc_1p8) ''vcc-supply'' 0 \<noteq> NULL
   \<and> kmalloc_ok (dt_device dt_vcc_1p8) (nalloc (dt_device dt_vcc_1p8))
   \<and> \<not> of_property_read_bool (dt_node dt_vcc_1p8) ''vcc-fixed-regulator''
   \<and> fst (of_property_read_u32 (dt_node dt_vcc_1p8) ''vcc-max-microamp'') = 0
   \<and> of_property_read_bool (dt_node dt_vcc_1p8) ''vcc-supply-1p8''
   \<and> (\<exists>cells. of_get_property (dt_node dt_vcc_1p8) ''vcc-voltage-level'' = Some (8, cells)
                \<and> cells 0 = 2700000 \<and> cells 1 = 3600000)
   \<and> (\<exists>vreg d'. ufshcd_populate_vreg ufs_h (dt_device dt_vcc_1p8) ''vcc'' None
                    = (0, Some vreg, d')
                \<and> min_uV vreg = 1700000 \<and> max_uV vreg = 1950000)"
proof -
  have h1: "of_node (dt_device dt_vcc_1p8) = Some (dt_node dt_vcc_1p8)"
    by (simp add: dt_device_def)
  have h2: "of_parse_phandle (dt_node dt_vcc_1p8) ''vcc-supply'' 0 \<noteq> NULL"
    by (simp add: dt_node_def dt_vcc_1p8_def NULL_def)
  have h3: "kmalloc_ok (dt_device dt_vcc_1p8) (nalloc (dt_device dt_vcc_1p8))"
    by (simp add: dt_device_def)
  have h4: "\<not> of_property_read_bool (dt_node dt_vcc_1p8) ''vcc-fixed-regulator''"
    by (simp add: dt_node_def dt_vcc_1p8_def)
  have h5: "fst (of_property_read_u32 (dt_node dt_vcc_1p8) ''vcc-max-microamp'') = 0"
    by (simp add: dt_node_def dt_vcc_1p8_def)
  have h6: "of_property_read_bool (dt_node dt_vcc_1p8) ''vcc-supply-1p8''"
    by (simp add: dt_node_def dt_vcc_1p8_def)
  have h7: "\<exists>cells. of_get_property (dt_node dt_vcc_1p8) ''vcc-voltage-level'' = Some (8, cells)
                \<and> cells 0 = 2700000 \<and> cells 1 = 3600000"
    by (simp add: dt_node_def dt_vcc_1p8_def dt_cell_def)
  show ?thesis
    using h1 h2 h3 h4 h5 h6 h7
      vcc_1p8_range [OF h1 h2 h3 h4 h5 h6, where k = ufs_h and out_vreg = None]
    by (simp add: ufs_h_def)
qed

text \<open>
  C7 as stated fails for a fixed regulator: with \<open>vcc-supply\<close>,
  \<open>vcc-fixed-regulator\<close> and \<open>vcc-supply-1p8\<close> all present, the descriptor is
  returned as allocated, with the range 0 to 0.
\<close>

theorem vcc_1p8_range_counterexample:
  "of_parse_phandle (dt_node dt_vcc_fixed_1p8) ''vcc-supply'' 0 \<noteq> NULL
   \<and> of_property_read_bool (dt_node dt_vcc_fixed_1p8) ''vcc-supply-1p8''
   \<and> fst (ufshcd_populate_vreg ufs_h (dt_device dt_vcc_fixed_1p8) ''vcc'' None) = 0
   \<and> fst (snd (ufshcd_populate_vreg ufs_h (dt_device dt_vcc_fixed_1p8) ''vcc'' None)) =
       Some \<lparr>vreg_name = Some ''vcc'', min_uV = 0, max_uV = 0, low_voltage_sup = False,
             min_uA = 0, max_uA = 0\<rparr>
   \<and> UFS_VREG_VCC_1P8_MIN_UV ufs_h = 1700000
   \<and> UFS_VREG_VCC_1P8_MAX_UV ufs_h = 1950000"
  by (simp add: vreg_defs snprintf_vcc dt_defs dt_vcc_fixed_1p8_def)

text \<open>
  C8, as the code has it. For the role \<open>vcc\<close> with its supply present, the
  descriptor allocated, \<open>vcc-fixed-regulator\<close> not set, \<open>vcc-max-microamp\<close>
  readable, \<open>vcc-supply-1p8\<close> unset and a \<open>vcc-voltage-level\<close> whose length is
  not the 8 bytes of two cells, the parser succeeds, prints the warning
  "invalid format" and sets the range to the default of the role.
\<close>

theorem vcc_malformed_voltage_level:
  assumes "of_node d = Some np"
    and "of_parse_phandle np ''vcc-supply'' 0 \<noteq> NULL"
    and "kmalloc_ok d (nalloc d)"
    and "\<not> of_property_read_bool np ''vcc-fixed-regulator''"
    and "fst (of_property_read_u32 np ''vcc-max-microamp'') = 0"
    and "\<not> of_property_read_bool np ''vcc-supply-1p8''"
    and "of_get_property np ''vcc-voltage-level'' = Some (len, cells)"
    and "len \<noteq> 8"
  shows "\<exists>vreg d'. ufshcd_populate_vreg k d ''vcc'' out_vreg = (0, Some vreg, d')
           \<and> min_uV vreg = UFS_VREG_VCC_MIN_UV k
           \<and> max_uV vreg = UFS_VREG_VCC_MAX_UV k
           \<and> klog d' = klog d @ [(KERN_WARNING, ''%s vcc-voltage-level property.'',
                                   [S ''invalid format''])]"
  using assms
  by (simp add: vreg_defs snprintf_vcc dev_warn_def dev_printk_def)

theorem vcc_malformed_voltage_level_witness:
  "of_node (dt_device dt_vcc_short_level) = Some (dt_node dt_vcc_short_level)
   \<and> of_parse_phandle (dt_node dt_vcc_short_level) ''vcc-supply'' 0 \<noteq> NULL
   \<and> kmalloc_ok (dt_device dt_vcc_short_level) (nalloc (dt_device dt_vcc_short_level))
   \<and> \<not> of_property_read_bool (dt_node dt_vcc_short_level) ''vcc-fixed-regulator''
   \<and> fst (of_property_read_u32 (dt_node dt_vcc_short_level) ''vcc-max-microamp'') = 0
   \<and> \<not> of_property_read_bool (dt_node dt_vcc_short_level) ''vcc-supply-1p8''
   \<and> of_get_property (dt_node dt_vcc_short_level) ''vcc-voltage-level''
       = Some (4, dt_cell [3300000])
   \<and> (\<exists>vreg d'. ufshcd_populate_vreg ufs_h (dt_device dt_vcc_short_level) ''vcc'' None
                    = (0, Some vreg, d')
                \<and> min_uV vreg = 2700000 \<and> max_uV vreg = 3600000
                \<and> klog d' = [(KERN_WARNING, ''%s vcc-voltage-level property.'',
                               [S ''invalid format''])])"
proof -
  have h1: "of_node (dt_device dt_vcc_short_level) = Some (dt_node dt_vcc_short_level)"
    by (simp add: dt_device_def)
  have h2: "of_parse_phandle (dt_node dt_vcc_short_level) ''vcc-supply'' 0 \<noteq> NULL"
    by (simp add: dt_node_def dt_vcc_short_level_def NULL_def)
  have h3: "kmalloc_ok (dt_device dt_vcc_short_level) (nalloc (dt_device dt_vcc_short_level))"
    by (simp add: dt_device_def)
  have h4: "\<not> of_property_read_bool (dt_node dt_vcc_short_level) ''vcc-fixed-regulator''"
    by (simp add: dt_node_def dt_vcc_short_level_def)
  have h5: "fst (of_property_read_u32 (dt_node dt_vcc_short_level) ''vcc-max-microamp'') = 0"
    by (simp add: dt_node_def dt_vcc_short_level_def)
  have h6: "\<not> of_property_read_bool (dt_node dt_vcc_short_level) ''vcc-supply-1p8''"
    by (simp add: dt_node_def dt_vcc_short_level_def)
  have h7: "of_get_property (dt_node dt_vcc_short_level) ''vcc-voltage-level''
              = Some (4, dt_cell [3300000])"
    by (simp add: dt_node_def dt_vcc_short_level_def)
  have h8: "(4::int) \<noteq> 8" by simp
  have h9: "klog (dt_device dt_vcc_short_level) = []"
    by (simp add: dt_device_def)
  show ?thesis
    using h1 h2 h3 h4 h5 h6 h7 h9
      vcc_malformed_voltage_level [OF h1 h2 h3 h4 h5 h6 h7 h8, where k = ufs_h and out_vreg = None]
    by (simp add: ufs_h_def)
qed

text \<open>
  C8 as stated fails on two descriptions with a one-cell \<open>vcc-voltage-level\<close>:
  without \<open>vcc-max-microamp\<close> the parser fails with \<open>-EINVAL\<close>, and with
  \<open>vcc-fixed-regulator\<close> it succeeds with the range 0 to 0 and no warning.
\<close>

theorem vcc_malformed_voltage_level_counterexample:
  "of_parse_phandle (dt_node dt_vcc_short_level_no_current) ''vcc-supply'' 0 \<noteq> NULL
   \<and> \<not> of_property_read_bool (dt_node dt_vcc_short_level_no_current) ''vcc-supply-1p8''
   \<and> of_get_property (dt_node dt_vcc_short_level_no_current) ''vcc-voltage-level''
       = Some (4, dt_cell [3300000])
   \<and> ufshcd_populate_vreg ufs_h (dt_device dt_vcc_short_level_no_current) ''vcc'' None
       = (- EINVAL, None,
          (dt_device dt_vcc_short_level_no_current)
            \<lparr>klog := [(KERN_ERR, ''%s: unable to find %s err %d'',
                        [S ''ufshcd_populate_vreg'', S ''vcc-max-microamp'', D (- EINVAL)])],
             nalloc := 2, kmem := [Devm_block 0, Kstrdup_copy 1 ''vcc'']\<rparr>)
   \<and> of_parse_phandle (dt_node dt_vcc_short_level_fixed) ''vcc-supply'' 0 \<noteq> NULL
   \<and> \<not> of_property_read_bool (dt_node dt_vcc_short_level_fixed) ''vcc-supply-1p8''
   \<and> of_get_property (dt_node dt_vcc_short_level_fixed) ''vcc-voltage-level''
       = Some (4, dt_cell [3300000])
   \<and> ufshcd_populate_vreg ufs_h (dt_device dt_vcc_short_level_fixed) ''vcc'' None
       = (0, Some \<lparr>vreg_name = Some ''vcc'', min_uV = 0, max_uV = 0,
                   low_voltage_sup = False, min_uA = 0, max_uA = 0\<rparr>,
          (dt_device dt_vcc_short_level_fixed)
            \<lparr>nalloc := 2, kmem := [Devm_block 0, Kstrdup_copy 1 ''vcc'']\<rparr>)
   \<and> UFS_VREG_VCC_MIN_UV ufs_h = 2700000
   \<and> UFS_VREG_VCC_MAX_UV ufs_h = 3600000"
  by (simp add: vreg_defs snprintf_vcc dt_node_def dt_device_def NULL_def ufs_h_def
      dev_printk_def dev_err_def EINVAL_def
      dt_vcc_short_level_no_current_def dt_vcc_short_level_fixed_def)

subsection \<open>Reference clock frequency\<close>

text \<open>
  C9. With a device-tree node in which \<open>dev-ref-clk-freq\<close> cannot be read, or
  holds a value above \<open>REF_CLK_FREQ_52_MHZ\<close>, the parser leaves the adapter with
  \<open>REF_CLK_FREQ_26_MHZ\<close> in the field and nothing else changed; the field then
  lies in the range, as \<open>REF_CLK_FREQ_26_MHZ\<close> does.
\<close>

theorem dev_ref_clk_freq_default:
  assumes "of_node (dev hba) = Some np"
    and "fst (of_property_read_u32 np ''dev-ref-clk-freq'') \<noteq> 0
         \<or> REF_CLK_FREQ_52_MHZ k < snd (of_property_read_u32 np ''dev-ref-clk-freq'')"
  shows "ufshcd_parse_dev_ref_clk_freq k hba = hba\<lparr>dev_ref_clk_freq := REF_CLK_FREQ_26_MHZ k\<rparr>
         \<and> (REF_CLK_FREQ_26_MHZ k \<le> REF_CLK_FREQ_52_MHZ k \<longrightarrow>
              dev_ref_clk_freq (ufshcd_parse_dev_ref_clk_freq k hba) \<le> REF_CLK_FREQ_52_MHZ k)"
  using assms
  by (auto simp: ufshcd_parse_dev_ref_clk_freq_def Let_def split_def)

theorem dev_ref_clk_freq_default_witness:
  "of_node (dev (hba_zero (dt_device dt_ref_clk_999))) = Some (dt_node dt_ref_clk_999)
   \<and> of_property_read_u32 (dt_node dt_ref_clk_999) ''dev-ref-clk-freq'' = (0, 999)
   \<and> REF_CLK_FREQ_52_MHZ ufs_h = 3 \<and> REF_CLK_FREQ_26_MHZ ufs_h = 1
   \<and> dev_ref_clk_freq (ufshcd_parse_dev_ref_clk_freq ufs_h (hba_zero (dt_device dt_ref_clk_999))) = 1
   \<and> of_node (dev (hba_zero (dt_device []))) = Some (dt_node [])
   \<and> of_property_read_u32 (dt_node []) ''dev-ref-clk-freq'' = (- EINVAL, 0)
   \<and> dev_ref_clk_freq (ufshcd_parse_dev_ref_clk_freq ufs_h (hba_zero (dt_device []))) = 1"
proof -
  have h1: "of_node (dev (hba_zero (dt_device dt_ref_clk_999))) = Some (dt_node dt_ref_clk_999)"
    by (simp add: hba_zero_def dt_device_def)
  have h2: "of_property_read_u32 (dt_node dt_ref_clk_999) ''dev-ref-clk-freq'' = (0, 999)"
    by (simp add: dt_node_def dt_ref_clk_999_def)
  have h3: "fst (of_property_read_u32 (dt_node dt_ref_clk_999) ''dev-ref-clk-freq'') \<noteq> 0
            \<or> REF_CLK_FREQ_52_MHZ ufs_h
                < snd (of_property_read_u32 (dt_node dt_ref_clk_999) ''dev-ref-clk-freq'')"
    by (simp add: h2 ufs_h_def)
  have g1: "of_node (dev (hba_zero (dt_device []))) = Some (dt_node [])"
    by (simp add: hba_zero_def dt_device_def)
  have g2: "of_property_read_u32 (dt_node []) ''dev-ref-clk-freq'' = (- EINVAL, 0)"
    by (simp add: dt_node_def)
  have g3: "fst (of_property_read_u32 (dt_node []) ''dev-ref-clk-freq'') \<noteq> 0
            \<or> REF_CLK_FREQ_52_MHZ ufs_h
                < snd (of_property_read_u32 (dt_node []) ''dev-ref-clk-freq'')"
    by (simp add: g2 EINVAL_def)
  show ?thesis
    using h1 h2 g1 g2 dev_ref_clk_freq_default [OF h1 h3] dev_ref_clk_freq_default [OF g1 g3]
    by (simp add: ufs_h_def)
qed

subsection \<open>Clocks\<close>

lemma clock_loop_table:
  assumes strs: "\<forall>i<length names. of_property_read_string_index np ''clock-names'' i = (0, names ! i)"
    and mem: "\<forall>m. kmalloc_ok (dev hba) m"
    and j: "j \<le> length names"
    and sz: "sz = 2 * length names"
  shows "fst (ufshcd_parse_clock_loop np clkfreq sz (2 * j) 0 hba) = 0
         \<and> clk_list_head (snd (ufshcd_parse_clock_loop np clkfreq sz (2 * j) 0 hba)) =
             clk_list_head hba @
             map (\<lambda>i. \<lparr>clki_name = Some (names ! i), min_freq = clkfreq (2 * i),
                        max_freq = clkfreq (2 * i + 1)\<rparr>) [j..<length names]"
  using mem j
proof (induction "length names - j" arbitrary: j hba)
  case 0
  then have "j = length names" by simp
  then show ?case
    by (subst ufshcd_parse_clock_loop.simps, subst (2) ufshcd_parse_clock_loop.simps)
       (simp add: sz)
next
  case (Suc n)
  then have lt: "j < length names" by simp
  let ?clki = "\<lparr>clki_name = Some (names ! j), min_freq = clkfreq (2 * j),
                 max_freq = clkfreq (2 * j + 1)\<rparr>"
  let ?d = "dev_dbg ((dev hba)\<lparr>nalloc := Suc (Suc (nalloc (dev hba))),
                       kmem := kmem (dev hba) @
                         [Devm_block (nalloc (dev hba)),
                          Kstrdup_copy (Suc (nalloc (dev hba))) (names ! j)]\<rparr>)
              ''%s: min %u max %u name %s''
              [S ''freq-table-hz'', U (clkfreq (2 * j)), U (clkfreq (2 * j + 1)), S (names ! j)]"
  let ?hba = "hba\<lparr>dev := ?d, clk_list_head := clk_list_head hba @ [?clki]\<rparr>"
  have step: "ufshcd_parse_clock_loop np clkfreq sz (2 * j) 0 hba =
              ufshcd_parse_clock_loop np clkfreq sz (2 * Suc j) 0 ?hba"
    using lt strs Suc.prems(1)
    by (subst ufshcd_parse_clock_loop.simps)
       (simp add: sz Let_def split_def devm_kzalloc_def kstrdup_def)
  have mem': "\<forall>m. kmalloc_ok (dev ?hba) m"
    using Suc.prems(1) by (simp add: dev_dbg_def dev_printk_def)
  have n: "n = length names - Suc j" using Suc.hyps(2) by simp
  have IH: "fst (ufshcd_parse_clock_loop np clkfreq sz (2 * Suc j) 0 ?hba) = 0
         \<and> clk_list_head (snd (ufshcd_parse_clock_loop np clkfreq sz (2 * Suc j) 0 ?hba)) =
             clk_list_head ?hba @
             map (\<lambda>i. \<lparr>clki_name = Some (names ! i), min_freq = clkfreq (2 * i),
                        max_freq = clkfreq (2 * i + 1)\<rparr>) [Suc j..<length names]"
    using Suc.hyps(1) [OF n mem'] lt by simp
  show ?case
    using IH lt by (simp add: step upt_conv_Cons)
qed

text \<open>
  C5. With a node that declares clock names and a frequency table of twice as many
  cells, and no allocation failing, the clock parser returns 0 and appends to the
  adapter's clock list one descriptor per name, in declaration order, with the
  minimum and maximum frequency of the corresponding pair.
\<close>

theorem parse_clock_info_table:
  assumes np: "of_node (dev hba) = Some np"
    and tab: "clock_table np names freqs"
    and len: "length freqs = 2 * length names"
    and mem: "\<forall>m. kmalloc_ok (dev hba) m"
  shows "fst (ufshcd_parse_clock_info hba) = 0
         \<and> clk_list_head (snd (ufshcd_parse_clock_info hba)) =
             clk_list_head hba @ clock_descriptors names freqs"
proof (cases "names = []")
  case True
  then have "of_property_count_strings np ''clock-names'' = 0"
    using tab by (simp add: clock_table_def)
  then show ?thesis
    using np True
    by (simp add: ufshcd_parse_clock_info_def clock_descriptors_def Let_def)
next
  case False
  let ?n = "length names"
  let ?sz = "length freqs"
  have cnt: "of_property_count_strings np ''clock-names'' = int ?n"
    using tab by (simp add: clock_table_def)
  have pos: "0 < ?n" using False by simp
  have strs: "\<forall>i<?n. of_property_read_string_index np ''clock-names'' i = (0, names ! i)"
    using tab by (simp add: clock_table_def list_all_iff)
  obtain cells where tbl: "of_get_property np ''freq-table-hz'' = Some (4 * int ?sz, cells)"
    using tab by (auto simp: clock_table_def split: option.splits)
  obtain vals where arr: "of_property_read_u32_array np ''freq-table-hz'' ?sz = (0, vals)"
    using tab by (cases "of_property_read_u32_array np ''freq-table-hz'' ?sz")
      (simp add: clock_table_def)
  have vals: "\<forall>i<?sz. vals i = freqs ! i"
    using tab arr by (simp add: clock_table_def list_all_iff)
  have e: "2 * int ?n = int ?sz" using len by simp
  have ne: "freqs \<noteq> []" using len pos by auto
  let ?clkfreq = "\<lambda>i. if (0::int) = 0 \<and> i < ?sz then vals i else 0"
  let ?hba = "hba\<lparr>dev := (dev hba)\<lparr>nalloc := Suc (nalloc (dev hba)),
                       kmem := kmem (dev hba) @ [Devm_block (nalloc (dev hba))]\<rparr>\<rparr>"
  have run: "ufshcd_parse_clock_info hba =
                ufshcd_parse_clock_loop np ?clkfreq ?sz (2 * 0) 0 ?hba"
    using np cnt pos tbl arr e ne mem
    by (simp add: ufshcd_parse_clock_info_def Let_def devm_kzalloc_def EINVAL_def)
  have mem': "\<forall>m. kmalloc_ok (dev ?hba) m"
    using mem by simp
  have zero: "(0::nat) \<le> ?n" by simp
  have descr: "map (\<lambda>i. \<lparr>clki_name = Some (names ! i), min_freq = ?clkfreq (2 * i),
                           max_freq = ?clkfreq (2 * i + 1)\<rparr>) [0..<?n]
               = clock_descriptors names freqs"
    using vals len by (simp add: clock_descriptors_def)
  show ?thesis
    using clock_loop_table [OF strs mem' zero len, of ?clkfreq]
    by (simp only: run descr) simp
qed

theorem parse_clock_info_table_witness:
  "of_node (dev (hba_zero (dt_device dt_two_clocks))) = Some (dt_node dt_two_clocks)
   \<and> clock_table (dt_node dt_two_clocks) [''core_clk'', ''ref_clk'']
        [50000000, 200000000, 0, 19200000]
   \<and> fst (ufshcd_parse_clock_info (hba_zero (dt_device dt_two_clocks))) = 0
   \<and> clk_list_head (snd (ufshcd_parse_clock_info (hba_zero (dt_device dt_two_clocks)))) =
       [\<lparr>clki_name = Some ''core_clk'', min_freq = 50000000, max_freq = 200000000\<rparr>,
        \<lparr>clki_name = Some ''ref_clk'', min_freq = 0, max_freq = 19200000\<rparr>]"
proof -
  have h1: "of_node (dev (hba_zero (dt_device dt_two_clocks))) = Some (dt_node dt_two_clocks)"
    by (simp add: hba_zero_def dt_device_def)
  have h2: "clock_table (dt_node dt_two_clocks) [''core_clk'', ''ref_clk'']
              [50000000, 200000000, 0, 19200000]"
    by (simp add: clock_table_def dt_node_def dt_two_clocks_def dt_cell_def upt_conv_Cons)
  have h3: "length [50000000, 200000000, 0, 19200000 :: u32]
              = 2 * length [''core_clk'', ''ref_clk'']"
    by simp
  have h4: "\<forall>m. kmalloc_ok (dev (hba_zero (dt_device dt_two_clocks))) m"
    by (simp add: hba_zero_def dt_device_def)
  have h5: "clk_list_head (hba_zero (dt_device dt_two_clocks)) = []"
    by (simp add: hba_zero_def)
  have h6: "clock_descriptors [''core_clk'', ''ref_clk''] [50000000, 200000000, 0, 19200000] =
       [\<lparr>clki_name = Some ''core_clk'', min_freq = 50000000, max_freq = 200000000\<rparr>,
        \<lparr>clki_name = Some ''ref_clk'', min_freq = 0, max_freq = 19200000\<rparr>]"
    by (simp add: clock_descriptors_def upt_conv_Cons)
  show ?thesis
    using h1 h2 parse_clock_info_table [OF h1 h2 h3 h4]
    by (simp only: h5 h6) simp
qed

text \<open>
  C6, as the code has it. With at least one clock name and a \<open>freq-table-hz\<close>
  of positive byte length whose cell count \<open>len / 4\<close> differs from twice the count
  of names, the parser returns \<open>-EINVAL\<close>, leaves the clock list as it was and
  allocates nothing.
\<close>

theorem parse_clock_info_len_mismatch:
  assumes "of_node (dev hba) = Some np"
    and "0 < of_property_count_strings np ''clock-names''"
    and "of_get_property np ''freq-table-hz'' = Some (len, cells)"
    and "0 < len"
    and "len div 4 \<noteq> 2 * of_property_count_strings np ''clock-names''"
  shows "fst (ufshcd_parse_clock_info hba) = - EINVAL
         \<and> clk_list_head (snd (ufshcd_parse_clock_info hba)) = clk_list_head hba
         \<and> nalloc (dev (snd (ufshcd_parse_clock_info hba))) = nalloc (dev hba)"
  using assms
  by (simp add: ufshcd_parse_clock_info_def Let_def EINVAL_def dev_err_def dev_printk_def)

theorem parse_clock_info_len_mismatch_witness:
  "of_node (dev (hba_zero (dt_device dt_clk_three_cells))) = Some (dt_node dt_clk_three_cells)
   \<and> of_property_count_strings (dt_node dt_clk_three_cells) ''clock-names'' = 1
   \<and> of_get_property (dt_node dt_clk_three_cells) ''freq-table-hz''
       = Some (12, dt_cell [100000, 200000, 300000])
   \<and> fst (ufshcd_parse_clock_info (hba_zero (dt_device dt_clk_three_cells))) = - 22
   \<and> clk_list_head (snd (ufshcd_parse_clock_info (hba_zero (dt_device dt_clk_three_cells)))) = []
   \<and> nalloc (dev (snd (ufshcd_parse_clock_info (hba_zero (dt_device dt_clk_three_cells))))) = 0"
proof -
  have h1: "of_node (dev (hba_zero (dt_device dt_clk_three_cells)))
              = Some (dt_node dt_clk_three_cells)"
    by (simp add: hba_zero_def dt_device_def)
  have c: "of_property_count_strings (dt_node dt_clk_three_cells) ''clock-names'' = 1"
    by (simp add: dt_node_def dt_clk_three_cells_def)
  have h2: "0 < of_property_count_strings (dt_node dt_clk_three_cells) ''clock-names''"
    by (simp add: c)
  have h3: "of_get_property (dt_node dt_clk_three_cells) ''freq-table-hz''
              = Some (12, dt_cell [100000, 200000, 300000])"
    by (simp add: dt_node_def dt_clk_three_cells_def)
  have h4: "(0::int) < 12" by simp
  have h5: "(12::int) div 4
              \<noteq> 2 * of_property_count_strings (dt_node dt_clk_three_cells) ''clock-names''"
    by (simp add: c)
  show ?thesis
    using h1 c h3 parse_clock_info_len_mismatch [OF h1 h2 h3 h4 h5]
    by (simp add: hba_zero_def dt_device_def EINVAL_def)
qed

text \<open>
  C6 as stated fails when the table is empty or absent: with one clock name and a
  \<open>freq-table-hz\<close> of length 0, or none at all, the lengths differ, and the
  parser returns 0.
\<close>

theorem len_mismatch_counterexample:
  "of_property_count_strings (dt_node dt_clk_empty_table) ''clock-names'' = 1
   \<and> of_get_property (dt_node dt_clk_empty_table) ''freq-table-hz'' = Some (0, dt_cell [])
   \<and> ufshcd_parse_clock_info (hba_zero (dt_device dt_clk_empty_table))
       = (0, hba_zero (dt_device dt_clk_empty_table))
   \<and> of_property_count_strings (dt_node dt_clk_no_table) ''clock-names'' = 1
   \<and> of_get_property (dt_node dt_clk_no_table) ''freq-table-hz'' = None
   \<and> fst (ufshcd_parse_clock_info (hba_zero (dt_device dt_clk_no_table))) = 0
   \<and> clk_list_head (snd (ufshcd_parse_clock_info (hba_zero (dt_device dt_clk_no_table)))) = []
   \<and> - EINVAL \<noteq> 0"
  by (simp add: ufshcd_parse_clock_info_def Let_def dt_node_def dt_device_def hba_zero_def
      dt_clk_empty_table_def dt_clk_no_table_def EINVAL_def dev_info_def dev_printk_def)

subsection \<open>The probe\<close>

text \<open>What the parsers leave of the device, and the sign of their status.\<close>

lemma same_device_refl: "same_device d d"
  by (simp add: same_device_def)

lemma same_device_trans: "same_device a b \<Longrightarrow> same_device b c \<Longrightarrow> same_device a c"
  by (simp add: same_device_def)

lemma same_device_printk: "same_device d (dev_printk lvl d fmt args)"
  by (simp add: same_device_def dev_printk_def)

lemma same_device_alloc:
  "same_device d (snd (devm_kzalloc d))" "same_device d (snd (kstrdup d s))"
  by (simp_all add: same_device_def devm_kzalloc_def kstrdup_def)

lemma populate_vreg_same:
  "same_device d (snd (snd (ufshcd_populate_vreg k d name out_vreg)))"
  by (simp add: vreg_defs same_device_def dev_printk_def dev_err_def dev_warn_def dev_info_def
      split: option.split)

lemma populate_vreg_status:
  assumes "\<forall>np. of_node d = Some np \<longrightarrow> of_convention np"
  shows "fst (ufshcd_populate_vreg k d name out_vreg) \<le> 0"
  using assms
  by (auto simp: vreg_defs of_convention_def ENOMEM_def split: option.split)

lemma regulator_info_same:
  "same_device (dev hba) (dev (snd (ufshcd_parse_regulator_info k hba)))"
proof -
  note s = populate_vreg_same same_device_trans
  show ?thesis
    unfolding ufshcd_parse_regulator_info_def Let_def split_def
    by (simp del: same_device_def) (meson s)
qed

lemma regulator_info_status:
  assumes "\<forall>np. of_node (dev hba) = Some np \<longrightarrow> of_convention np"
  shows "fst (ufshcd_parse_regulator_info k hba) \<le> 0"
proof -
  have conv: "\<forall>np. of_node d = Some np \<longrightarrow> of_convention np"
    if "same_device (dev hba) d" for d
    using that assms by (simp add: same_device_def)
  let ?r1 = "ufshcd_populate_vreg k (dev hba) ''vdd-hba'' (vdd_hba (vreg_info hba))"
  let ?d1 = "snd (snd ?r1)"
  let ?r2 = "ufshcd_populate_vreg k ?d1 ''vcc'' (vcc (vreg_info hba\<lparr>vdd_hba := fst (snd ?r1)\<rparr>))"
  let ?d2 = "snd (snd ?r2)"
  let ?r3 = "ufshcd_populate_vreg k ?d2 ''vccq''
               (vccq (vreg_info hba\<lparr>vdd_hba := fst (snd ?r1), vcc := fst (snd ?r2)\<rparr>))"
  let ?d3 = "snd (snd ?r3)"
  have s1: "same_device (dev hba) ?d1" by (rule populate_vreg_same)
  have s2: "same_device (dev hba) ?d2"
    by (rule same_device_trans [OF s1 populate_vreg_same])
  have s3: "same_device (dev hba) ?d3"
    by (rule same_device_trans [OF s2 populate_vreg_same])
  note st = populate_vreg_status [OF conv [OF same_device_refl]]
    populate_vreg_status [OF conv [OF s1]] populate_vreg_status [OF conv [OF s2]]
    populate_vreg_status [OF conv [OF s3]]
  show ?thesis
    unfolding ufshcd_parse_regulator_info_def Let_def split_def
    using st by simp
qed

lemma clock_loop_cases:
  obtains
    (stop) "ufshcd_parse_clock_loop np clkfreq sz i ret hba = (ret, hba)"
  | (err) r where "r \<noteq> 0" "r = fst (of_property_read_string_index np ''clock-names'' (i div 2))"
      "ufshcd_parse_clock_loop np clkfreq sz i ret hba = (r, hba)"
  | (nomem) "ufshcd_parse_clock_loop np clkfreq sz i ret hba =
      (- ENOMEM, hba\<lparr>dev := snd (devm_kzalloc (dev hba))\<rparr>)"
  | (step) d clki where "i < sz" "same_device (dev hba) d"
      "ufshcd_parse_clock_loop np clkfreq sz i ret hba =
       ufshcd_parse_clock_loop np clkfreq sz (i + 2) 0
         (hba\<lparr>dev := d, clk_list_head := clk_list_head hba @ [clki]\<rparr>)"
proof (cases "i < sz")
  case False
  then have "ufshcd_parse_clock_loop np clkfreq sz i ret hba = (ret, hba)"
    by (subst ufshcd_parse_clock_loop.simps) simp
  then show ?thesis by (rule stop)
next
  case lt: True
  let ?r = "of_property_read_string_index np ''clock-names'' (i div 2)"
  show ?thesis
  proof (cases "fst ?r = 0")
    case False
    then have "ufshcd_parse_clock_loop np clkfreq sz i ret hba = (fst ?r, hba)"
      using lt by (subst ufshcd_parse_clock_loop.simps) (simp add: split_def)
    with False show ?thesis by (intro err [of "fst ?r"]) simp_all
  next
    case ok: True
    show ?thesis
    proof (cases "fst (devm_kzalloc (dev hba))")
      case False
      then have "ufshcd_parse_clock_loop np clkfreq sz i ret hba =
                 (- ENOMEM, hba\<lparr>dev := snd (devm_kzalloc (dev hba))\<rparr>)"
        using lt ok by (subst ufshcd_parse_clock_loop.simps) (simp add: split_def)
      then show ?thesis by (rule nomem)
    next
      case True
      let ?k = "kstrdup (snd (devm_kzalloc (dev hba))) (snd ?r)"
      let ?clki = "\<lparr>clki_name = fst ?k, min_freq = clkfreq i, max_freq = clkfreq (i + 1)\<rparr>"
      let ?d = "dev_dbg (snd ?k) ''%s: min %u max %u name %s''
                  [S ''freq-table-hz'', U (min_freq ?clki), U (max_freq ?clki),
                   S (case fst ?k of None \<Rightarrow> ''(null)'' | Some s \<Rightarrow> s)]"
      have run: "ufshcd_parse_clock_loop np clkfreq sz i ret hba =
                 ufshcd_parse_clock_loop np clkfreq sz (i + 2) 0
                   (hba\<lparr>dev := ?d, clk_list_head := clk_list_head hba @ [?clki]\<rparr>)"
        using lt ok True
        by (subst ufshcd_parse_clock_loop.simps) (simp add: split_def Let_def)
      have same: "same_device (dev hba) ?d"
        by (simp add: same_device_def devm_kzalloc_def kstrdup_def dev_dbg_def dev_printk_def)
      show ?thesis by (rule step [OF lt same run])
    qed
  qed
qed

lemma clock_loop_same:
  "same_device (dev hba) (dev (snd (ufshcd_parse_clock_loop np clkfreq sz i ret hba)))"
proof (induction "sz - i" arbitrary: i ret hba rule: less_induct)
  case less
  show ?case
  proof (cases rule: clock_loop_cases [of np clkfreq sz i ret hba])
    case stop
    then show ?thesis by (simp add: same_device_refl)
  next
    case (err r)
    then show ?thesis by (simp add: same_device_refl)
  next
    case nomem
    then show ?thesis by (simp add: same_device_alloc)
  next
    case (step d clki)
    let ?hba = "hba\<lparr>dev := d, clk_list_head := clk_list_head hba @ [clki]\<rparr>"
    have "same_device (dev ?hba)
            (dev (snd (ufshcd_parse_clock_loop np clkfreq sz (i + 2) 0 ?hba)))"
      by (rule less.hyps) (use step(1) in simp)
    then have "same_device d (dev (snd (ufshcd_parse_clock_loop np clkfreq sz i ret hba)))"
      by (simp add: step(3))
    with step(2) show ?thesis by (rule same_device_trans)
  qed
qed

lemma clock_loop_status:
  assumes "of_convention np" "ret \<le> 0"
  shows "fst (ufshcd_parse_clock_loop np clkfreq sz i ret hba) \<le> 0"
  using assms(2)
proof (induction "sz - i" arbitrary: i ret hba rule: less_induct)
  case less
  show ?case
  proof (cases rule: clock_loop_cases [of np clkfreq sz i ret hba])
    case stop
    then show ?thesis using less.prems by simp
  next
    case (err r)
    then show ?thesis using assms(1) by (simp add: of_convention_def)
  next
    case nomem
    then show ?thesis by (simp add: ENOMEM_def)
  next
    case (step d clki)
    let ?hba = "hba\<lparr>dev := d, clk_list_head := clk_list_head hba @ [clki]\<rparr>"
    have "fst (ufshcd_parse_clock_loop np clkfreq sz (i + 2) 0 ?hba) \<le> 0"
      by (rule less.hyps) (use step(1) in simp_all)
    then show ?thesis by (simp add: step(3))
  qed
qed

lemmas clock_loop_fields = clock_loop_same [unfolded same_device_def]

lemma clock_info_same:
  "same_device (dev hba) (dev (snd (ufshcd_parse_clock_info hba)))"
  unfolding ufshcd_parse_clock_info_def same_device_def
  by (simp add: Let_def split_def clock_loop_fields devm_kzalloc_def
      dev_printk_def dev_err_def dev_info_def split: option.split)

lemma clock_info_status:
  assumes "\<forall>np. of_node (dev hba) = Some np \<longrightarrow> of_convention np"
  shows "fst (ufshcd_parse_clock_info hba) \<le> 0"
proof (cases "of_node (dev hba)")
  case None
  then show ?thesis by (simp add: ufshcd_parse_clock_info_def)
next
  case (Some np)
  then have conv: "of_convention np" using assms by simp
  have arr: "fst (of_property_read_u32_array np p n) \<le> 0" for p n
    using conv by (simp add: of_convention_def)
  have loop: "ret \<le> 0 \<Longrightarrow> fst (ufshcd_parse_clock_loop np clkfreq sz i ret h) \<le> 0"
    for clkfreq sz i ret h
    using conv by (rule clock_loop_status)
  show ?thesis
    unfolding ufshcd_parse_clock_info_def
    using Some
    by (simp add: Let_def split_def EINVAL_def ENOMEM_def loop arr split: option.split)
qed

text \<open>
  Every run of the probe is one of these: it leaves before the first parser, or a
  stage fails and the adapter is released, or the adapter is attached.
\<close>

lemma populate_vreg_of_node:
  "of_node (snd (snd (ufshcd_populate_vreg k d name out_vreg))) = of_node d"
  using populate_vreg_same [of d k name out_vreg] by (simp add: same_device_def)

lemma populate_vreg_unreadable:
  assumes "of_node d = Some np"
    and "of_parse_phandle np (snprintf MAX_PROP_SIZE name ''-supply'') 0 \<noteq> NULL"
    and "\<not> of_property_read_bool np (snprintf MAX_PROP_SIZE name ''-fixed-regulator'')"
    and "fst (of_property_read_u32 np (snprintf MAX_PROP_SIZE name ''-max-microamp'')) \<noteq> 0"
  shows "fst (ufshcd_populate_vreg k d name out_vreg) \<noteq> 0"
  using assms
  by (auto simp: vreg_defs ENOMEM_def)

lemma regulator_info_unreadable:
  assumes np: "of_node (dev hba) = Some np"
    and name: "name \<in> {''vdd-hba'', ''vcc'', ''vccq'', ''vccq2''}"
    and sup: "of_parse_phandle np (snprintf MAX_PROP_SIZE name ''-supply'') 0 \<noteq> NULL"
    and nfx: "\<not> of_property_read_bool np (snprintf MAX_PROP_SIZE name ''-fixed-regulator'')"
    and rd: "fst (of_property_read_u32 np (snprintf MAX_PROP_SIZE name ''-max-microamp'')) \<noteq> 0"
  shows "fst (ufshcd_parse_regulator_info k hba) \<noteq> 0"
proof -
  have f: "fst (ufshcd_populate_vreg k d name out_vreg) \<noteq> 0"
    if "of_node d = Some np" for d out_vreg
    using that sup nfx rd by (rule populate_vreg_unreadable)
  from name consider
      (a) "name = ''vdd-hba''" | (b) "name = ''vcc''"
    | (c) "name = ''vccq''" | (d) "name = ''vccq2''"
    by auto
  then show ?thesis
  proof cases
    case a
    note g = f [unfolded a]
    show ?thesis
      unfolding ufshcd_parse_regulator_info_def Let_def split_def
      using np by (simp add: populate_vreg_of_node g)
  next
    case b
    note g = f [unfolded b]
    show ?thesis
      unfolding ufshcd_parse_regulator_info_def Let_def split_def
      using np by (simp add: populate_vreg_of_node g)
  next
    case c
    note g = f [unfolded c]
    show ?thesis
      unfolding ufshcd_parse_regulator_info_def Let_def split_def
      using np by (simp add: populate_vreg_of_node g)
  next
    case d
    note g = f [unfolded d]
    show ?thesis
      unfolding ufshcd_parse_regulator_info_def Let_def split_def
      using np by (simp add: populate_vreg_of_node g)
  qed
qed

lemma reset_info_status:
  "fst (ufshcd_parse_reset_info hba) =
     (if IS_ERR (devm_reset_control_get (dev hba) ''core_reset'')
      then PTR_ERR (devm_reset_control_get (dev hba) ''core_reset'') else 0)"
  by (simp add: ufshcd_parse_reset_info_def Let_def)

lemma reset_info_same:
  "same_device (dev hba) (dev (snd (ufshcd_parse_reset_info hba)))"
  by (simp add: ufshcd_parse_reset_info_def Let_def same_device_def dev_err_def dev_printk_def)

lemma scalar_parsers_dev:
  "dev (snd (ufshcd_parse_pinctrl_info hba)) = dev hba"
  "dev (ufshcd_parse_dev_ref_clk_freq k hba) = dev hba"
  "dev (ufshcd_parse_pm_levels hba) = dev hba"
  "dev (ufshcd_parse_gear_limits hba) = dev hba"
  "dev (ufshcd_parse_cmd_timeout hba) = dev hba"
  "dev (ufshcd_parse_force_g4_flag hba) = dev hba"
  by (simp_all add: ufshcd_parse_pinctrl_info_def ufshcd_parse_dev_ref_clk_freq_def
      ufshcd_parse_pm_levels_def ufshcd_parse_gear_limits_def ufshcd_parse_cmd_timeout_def
      ufshcd_parse_force_g4_flag_def Let_def split_def split: option.split)

lemma extcon_info_status:
  "fst (ufshcd_parse_extcon_info hba) =
     (if IS_ERR (extcon_get_edev_by_phandle (dev hba) 0)
         \<and> PTR_ERR (extcon_get_edev_by_phandle (dev hba) 0) \<noteq> - ENODEV
      then PTR_ERR (extcon_get_edev_by_phandle (dev hba) 0) else 0)"
  by (simp add: ufshcd_parse_extcon_info_def Let_def)

lemma probe_cases:
  fixes k core pdev variant
  defines "p \<equiv> ufshcd_pltfrm_init k core pdev variant"
    and "rst \<equiv> devm_reset_control_get (pdev_dev pdev) ''core_reset''"
    and "xc \<equiv> extcon_get_edev_by_phandle (pdev_dev pdev) 0"
  obtains
    (early) "fst p \<noteq> 0" "calls (snd p) = calls pdev" "drvdata (snd p) = drvdata pdev"
  | (clock) h e where "dev h = pdev_dev pdev" "e = fst (ufshcd_parse_clock_info h)" "e \<noteq> 0"
      "fst p = e" "drvdata (snd p) = drvdata pdev"
      "calls (snd p) = calls pdev @ [(Parse_clock_info, e), (Ufshcd_dealloc_host, 0)]"
  | (regulator) h e where "same_device (pdev_dev pdev) (dev h)"
      "e = fst (ufshcd_parse_regulator_info k h)" "e \<noteq> 0"
      "fst p = e" "drvdata (snd p) = drvdata pdev"
      "calls (snd p) = calls pdev @
         [(Parse_clock_info, 0), (Parse_regulator_info, e), (Ufshcd_dealloc_host, 0)]"
  | (reset) hr where "same_device (pdev_dev pdev) (dev hr)"
      "fst (ufshcd_parse_regulator_info k hr) = 0"
      "IS_ERR rst" "fst p = PTR_ERR rst" "drvdata (snd p) = drvdata pdev"
      "calls (snd p) = calls pdev @
         [(Parse_clock_info, 0), (Parse_regulator_info, 0), (Parse_reset_info, PTR_ERR rst),
          (Ufshcd_dealloc_host, 0)]"
  | (extcon) hr e4 where "same_device (pdev_dev pdev) (dev hr)"
      "fst (ufshcd_parse_regulator_info k hr) = 0"
      "\<not> IS_ERR rst" "IS_ERR xc" "PTR_ERR xc \<noteq> - ENODEV"
      "fst p = PTR_ERR xc" "drvdata (snd p) = drvdata pdev"
      "calls (snd p) = calls pdev @
         [(Parse_clock_info, 0), (Parse_regulator_info, 0), (Parse_reset_info, 0),
          (Parse_pinctrl_info, e4), (Parse_dev_ref_clk_freq, 0), (Parse_pm_levels, 0),
          (Parse_gear_limits, 0), (Parse_cmd_timeout, 0), (Parse_force_g4_flag, 0),
          (Parse_extcon_info, PTR_ERR xc), (Ufshcd_dealloc_host, 0)]"
  | (init) hr e h e4 where "same_device (pdev_dev pdev) (dev hr)"
      "fst (ufshcd_parse_regulator_info k hr) = 0"
      "\<not> IS_ERR rst" "\<not> (IS_ERR xc \<and> PTR_ERR xc \<noteq> - ENODEV)"
      "e = fst (ufshcd_init core h (devm_ioremap_resource pdev) (platform_get_irq pdev 0))"
      "e \<noteq> 0" "fst p = e" "drvdata (snd p) = drvdata pdev"
      "calls (snd p) = calls pdev @
         [(Parse_clock_info, 0), (Parse_regulator_info, 0), (Parse_reset_info, 0),
          (Parse_pinctrl_info, e4), (Parse_dev_ref_clk_freq, 0), (Parse_pm_levels, 0),
          (Parse_gear_limits, 0), (Parse_cmd_timeout, 0), (Parse_force_g4_flag, 0),
          (Parse_extcon_info, 0), (Init_lanes_per_dir, 0), (Ufshcd_init, e),
          (Ufshcd_dealloc_host, 0)]"
  | (attached) hr h e4 where "same_device (pdev_dev pdev) (dev hr)"
      "fst (ufshcd_parse_regulator_info k hr) = 0"
      "\<not> IS_ERR rst" "\<not> (IS_ERR xc \<and> PTR_ERR xc \<noteq> - ENODEV)"
      "fst p = 0" "drvdata (snd p) = Some h"
      "calls (snd p) = calls pdev @
         [(Parse_clock_info, 0), (Parse_regulator_info, 0), (Parse_reset_info, 0),
          (Parse_pinctrl_info, e4), (Parse_dev_ref_clk_freq, 0), (Parse_pm_levels, 0),
          (Parse_gear_limits, 0), (Parse_cmd_timeout, 0), (Parse_force_g4_flag, 0),
          (Parse_extcon_info, 0), (Init_lanes_per_dir, 0), (Ufshcd_init, 0),
          (Platform_set_drvdata, 0), (Pm_runtime_set_active, 0), (Pm_runtime_enable, 0)]"
proof -
  let ?mmio = "devm_ioremap_resource pdev"
  let ?irq = "platform_get_irq pdev 0"
  obtain e0 a where a: "ufshcd_alloc_host core (pdev_dev pdev) = (e0, a)"
    by (cases "ufshcd_alloc_host core (pdev_dev pdev)")
  define h0 where "h0 = a\<lparr>dev := pdev_dev pdev, var := variant\<rparr>"
  obtain e1 h1 where c1: "ufshcd_parse_clock_info h0 = (e1, h1)"
    by (cases "ufshcd_parse_clock_info h0")
  obtain e2 h2 where c2: "ufshcd_parse_regulator_info k h1 = (e2, h2)"
    by (cases "ufshcd_parse_regulator_info k h1")
  obtain e3 h3 where c3: "ufshcd_parse_reset_info h2 = (e3, h3)"
    by (cases "ufshcd_parse_reset_info h2")
  obtain e4 h4 where c4: "ufshcd_parse_pinctrl_info h3 = (e4, h4)"
    by (cases "ufshcd_parse_pinctrl_info h3")
  define h5 where "h5 =
    ufshcd_parse_force_g4_flag (ufshcd_parse_cmd_timeout (ufshcd_parse_gear_limits
      (ufshcd_parse_pm_levels (ufshcd_parse_dev_ref_clk_freq k
        (if e4 \<noteq> 0
         then h4\<lparr>dev := dev_dbg (dev h4) ''%s: unable to parse pinctrl data %d''
                            [S ''ufshcd_pltfrm_init'', D e4]\<rparr>
         else h4)))))"
  obtain e6 h6 where c6: "ufshcd_parse_extcon_info h5 = (e6, h6)"
    by (cases "ufshcd_parse_extcon_info h5")
  define h7 where "h7 =
    ufshcd_init_lanes_per_dir
      (if dma_mask (dev h6) = NULL
       then h6\<lparr>dev := (dev h6)\<lparr>dma_mask := coherent_dma_mask (dev h6)\<rparr>\<rparr> else h6)"
  obtain e8 h8 where c8: "ufshcd_init core h7 ?mmio ?irq = (e8, h8)"
    by (cases "ufshcd_init core h7 ?mmio ?irq")
  note run = p_def ufshcd_pltfrm_init_def Let_def called_def dealloc_host_def
    a c1 [unfolded h0_def] c2 c3 c4 c6 [unfolded h5_def] c8 [unfolded h7_def]
  have d0: "dev h0 = pdev_dev pdev" by (simp add: h0_def)
  have s1: "same_device (pdev_dev pdev) (dev h1)"
    using clock_info_same [of h0] by (simp add: c1 d0)
  have s2: "same_device (pdev_dev pdev) (dev h2)"
    using same_device_trans [OF s1 regulator_info_same [of h1 k]] by (simp add: c2)
  have r2: "devm_reset_control_get (dev h2) ''core_reset'' = rst"
    using s2 by (simp add: same_device_def rst_def)
  have e3: "e3 = (if IS_ERR rst then PTR_ERR rst else 0)"
    using reset_info_status [of h2] by (simp add: c3 r2)
  have s3: "same_device (pdev_dev pdev) (dev h3)"
    using same_device_trans [OF s2 reset_info_same [of h2]] by (simp add: c3)
  have d4: "dev h4 = dev h3"
    using scalar_parsers_dev(1) [of h3] by (simp add: c4)
  have x5: "extcon_get_edev_by_phandle (dev h5) 0 = xc"
    using s3 by (simp add: h5_def scalar_parsers_dev d4 same_device_def xc_def
        dev_dbg_def dev_printk_def)
  have e6: "e6 = (if IS_ERR xc \<and> PTR_ERR xc \<noteq> - ENODEV then PTR_ERR xc else 0)"
    using extcon_info_status [of h5] by (simp add: c6 x5)
  have reg: "e2 = fst (ufshcd_parse_regulator_info k h1)" by (simp add: c2)
  consider
      (A) "IS_ERR ?mmio \<or> ?irq < 0 \<or> e0 \<noteq> 0"
    | (B) "\<not> IS_ERR ?mmio" "\<not> ?irq < 0" "e0 = 0" "e1 \<noteq> 0"
    | (C) "\<not> IS_ERR ?mmio" "\<not> ?irq < 0" "e0 = 0" "e1 = 0" "e2 \<noteq> 0"
    | (D) "\<not> IS_ERR ?mmio" "\<not> ?irq < 0" "e0 = 0" "e1 = 0" "e2 = 0" "e3 \<noteq> 0"
    | (E) "\<not> IS_ERR ?mmio" "\<not> ?irq < 0" "e0 = 0" "e1 = 0" "e2 = 0" "e3 = 0" "e6 \<noteq> 0"
    | (F) "\<not> IS_ERR ?mmio" "\<not> ?irq < 0" "e0 = 0" "e1 = 0" "e2 = 0" "e3 = 0" "e6 = 0"
          "e8 \<noteq> 0"
    | (G) "\<not> IS_ERR ?mmio" "\<not> ?irq < 0" "e0 = 0" "e1 = 0" "e2 = 0" "e3 = 0" "e6 = 0"
          "e8 = 0"
    by blast
  then show thesis
  proof cases
    case A
    then have "fst p \<noteq> 0 \<and> calls (snd p) = calls pdev \<and> drvdata (snd p) = drvdata pdev"
      by (auto simp: run IS_ERR_def PTR_ERR_def ENODEV_def)
    then show ?thesis using early by blast
  next
    case B
    then have "fst p = e1 \<and> drvdata (snd p) = drvdata pdev
      \<and> calls (snd p) = calls pdev @ [(Parse_clock_info, e1), (Ufshcd_dealloc_host, 0)]"
      by (simp add: run)
    then show ?thesis using clock [of h0 e1] d0 c1 B(4) by simp
  next
    case C
    then have "fst p = e2 \<and> drvdata (snd p) = drvdata pdev
      \<and> calls (snd p) = calls pdev @
          [(Parse_clock_info, 0), (Parse_regulator_info, e2), (Ufshcd_dealloc_host, 0)]"
      by (simp add: run)
    then show ?thesis using regulator [of h1 e2] s1 c2 C(5) by simp
  next
    case D
    then have "fst p = e3 \<and> drvdata (snd p) = drvdata pdev
      \<and> calls (snd p) = calls pdev @
          [(Parse_clock_info, 0), (Parse_regulator_info, 0), (Parse_reset_info, e3),
           (Ufshcd_dealloc_host, 0)]"
      by (simp add: run)
    moreover have "IS_ERR rst" "e3 = PTR_ERR rst"
      using D(6) e3 by (simp_all split: if_splits)
    moreover have "fst (ufshcd_parse_regulator_info k h1) = 0"
      using D(5) reg by simp
    ultimately show ?thesis using reset [of h1] s1 by simp
  next
    case E
    then have "fst p = e6 \<and> drvdata (snd p) = drvdata pdev
      \<and> calls (snd p) = calls pdev @
         [(Parse_clock_info, 0), (Parse_regulator_info, 0), (Parse_reset_info, 0),
          (Parse_pinctrl_info, e4), (Parse_dev_ref_clk_freq, 0), (Parse_pm_levels, 0),
          (Parse_gear_limits, 0), (Parse_cmd_timeout, 0), (Parse_force_g4_flag, 0),
          (Parse_extcon_info, e6), (Ufshcd_dealloc_host, 0)]"
      by (simp add: run)
    moreover have "\<not> IS_ERR rst"
      using E(6) e3 by (simp_all add: IS_ERR_def PTR_ERR_def split: if_splits)
    moreover have "IS_ERR xc" "PTR_ERR xc \<noteq> - ENODEV" "e6 = PTR_ERR xc"
      using E(7) e6 by (simp_all split: if_splits)
    moreover have "fst (ufshcd_parse_regulator_info k h1) = 0"
      using E(5) reg by simp
    ultimately show ?thesis using extcon [of h1 e4] s1 by simp
  next
    case F
    then have "fst p = e8 \<and> drvdata (snd p) = drvdata pdev
      \<and> calls (snd p) = calls pdev @
         [(Parse_clock_info, 0), (Parse_regulator_info, 0), (Parse_reset_info, 0),
          (Parse_pinctrl_info, e4), (Parse_dev_ref_clk_freq, 0), (Parse_pm_levels, 0),
          (Parse_gear_limits, 0), (Parse_cmd_timeout, 0), (Parse_force_g4_flag, 0),
          (Parse_extcon_info, 0), (Init_lanes_per_dir, 0), (Ufshcd_init, e8),
          (Ufshcd_dealloc_host, 0)]"
      by (simp add: run)
    moreover have "\<not> IS_ERR rst"
      using F(6) e3 by (simp_all add: IS_ERR_def PTR_ERR_def split: if_splits)
    moreover have "\<not> (IS_ERR xc \<and> PTR_ERR xc \<noteq> - ENODEV)"
      using F(7) e6 by (auto simp: IS_ERR_def PTR_ERR_def split: if_splits)
    moreover have "fst (ufshcd_parse_regulator_info k h1) = 0"
      using F(5) reg by simp
    ultimately show ?thesis using init [of h1 e8 h7 e4] s1 c8 F(8) by simp
  next
    case G
    then have "fst p = 0 \<and> drvdata (snd p) = Some h8
      \<and> calls (snd p) = calls pdev @
         [(Parse_clock_info, 0), (Parse_regulator_info, 0), (Parse_reset_info, 0),
          (Parse_pinctrl_info, e4), (Parse_dev_ref_clk_freq, 0), (Parse_pm_levels, 0),
          (Parse_gear_limits, 0), (Parse_cmd_timeout, 0), (Parse_force_g4_flag, 0),
          (Parse_extcon_info, 0), (Init_lanes_per_dir, 0), (Ufshcd_init, 0),
          (Platform_set_drvdata, 0), (Pm_runtime_set_active, 0), (Pm_runtime_enable, 0)]"
      by (simp add: run)
    moreover have "\<not> IS_ERR rst"
      using G(6) e3 by (simp_all add: IS_ERR_def PTR_ERR_def split: if_splits)
    moreover have "\<not> (IS_ERR xc \<and> PTR_ERR xc \<noteq> - ENODEV)"
      using G(7) e6 by (auto simp: IS_ERR_def PTR_ERR_def split: if_splits)
    moreover have "fst (ufshcd_parse_regulator_info k h1) = 0"
      using G(5) reg by simp
    ultimately show ?thesis using attached [of h1 h8 e4] s1 by simp
  qed
qed

lemmas eval_defs =
  ufshcd_pltfrm_init_def probe_calls_def called_def dealloc_host_def Let_def
  ufshcd_parse_clock_info_def ufshcd_parse_regulator_info_def ufshcd_populate_vreg_def
  ufshcd_parse_reset_info_def ufshcd_parse_pinctrl_info_def ufshcd_parse_dev_ref_clk_freq_def
  ufshcd_parse_pm_levels_def ufshcd_parse_gear_limits_def ufshcd_parse_cmd_timeout_def
  ufshcd_parse_force_g4_flag_def ufshcd_parse_extcon_info_def ufshcd_init_lanes_per_dir_def
  devm_kzalloc_def kstrdup_def ufs_vreg_zero_def snprintf_def MAX_PROP_SIZE_def
  IS_ERR_def PTR_ERR_def MAX_ERRNO_def ENOENT_def
  dt_pdev_def core_ok_def dt_defs

lemma dt_node_convention: "of_convention (dt_node dt)"
  by (simp add: of_convention_def dt_node_def EINVAL_def EOVERFLOW_def EILSEQ_def ENODATA_def
      split: option.split dt_val.split)

lemma core_ok_convention: "core_convention core_ok"
  by (simp add: core_convention_def core_ok_def)

text \<open>
  What holds of the first claim. The controller-core initialiser is called only
  after the clock, regulator, reset and external-connector stages have each returned
  0. In every run in which a mandatory stage (clock parse, regulator parse, external
  connector, controller-core initialisation) returns a status other than 0, the probe
  returns that status, which is negative when the functions outside this file keep
  the kernel's convention; the driver data is left as it was,
  \<open>platform_set_drvdata\<close> is not called, and the run ends with the one call of
  \<open>ufshcd_dealloc_host\<close>. And when the lookup of the external connector returns
  an error other than \<open>-ENODEV\<close>, the probe fails without calling the initialiser,
  with the error of the lookup once it gets to that stage.
\<close>

lemma probe_mandatory_failure:
  "(\<forall>e. (Ufshcd_init, e) \<in> set (probe_calls k core pdev variant) \<longrightarrow>
      {(Parse_clock_info, 0), (Parse_regulator_info, 0), (Parse_reset_info, 0),
       (Parse_extcon_info, 0)}
        \<subseteq> set (takeWhile (\<lambda>c. fst c \<noteq> Ufshcd_init) (probe_calls k core pdev variant)))
   \<and> ((s, r) \<in> set (probe_calls k core pdev variant) \<and> mandatory s \<and> r \<noteq> 0 \<longrightarrow>
         fst (ufshcd_pltfrm_init k core pdev variant) = r
         \<and> (status_convention core pdev \<longrightarrow> r < 0)
         \<and> drvdata (snd (ufshcd_pltfrm_init k core pdev variant)) = drvdata pdev
         \<and> Platform_set_drvdata \<notin> set (map fst (probe_calls k core pdev variant))
         \<and> last (probe_calls k core pdev variant) = (Ufshcd_dealloc_host, 0)
         \<and> length (filter (\<lambda>c. fst c = Ufshcd_dealloc_host)
                     (probe_calls k core pdev variant)) = 1)
   \<and> (IS_ERR (extcon_get_edev_by_phandle (pdev_dev pdev) 0)
       \<and> PTR_ERR (extcon_get_edev_by_phandle (pdev_dev pdev) 0) \<noteq> - ENODEV \<longrightarrow>
         fst (ufshcd_pltfrm_init k core pdev variant) \<noteq> 0
         \<and> drvdata (snd (ufshcd_pltfrm_init k core pdev variant)) = drvdata pdev
         \<and> Ufshcd_init \<notin> set (map fst (probe_calls k core pdev variant))
         \<and> ((Parse_force_g4_flag, 0) \<in> set (probe_calls k core pdev variant) \<longrightarrow>
              fst (ufshcd_pltfrm_init k core pdev variant)
                = PTR_ERR (extcon_get_edev_by_phandle (pdev_dev pdev) 0)
              \<and> last (probe_calls k core pdev variant) = (Ufshcd_dealloc_host, 0)))"
proof (cases rule: probe_cases [of k core pdev variant])
  case early
  then show ?thesis by (simp add: probe_calls_def)
next
  case (clock h e)
  have "\<forall>np. of_node (dev h) = Some np \<longrightarrow> of_convention np" if "status_convention core pdev"
    using that clock(1) by (simp add: status_convention_def split: option.splits)
  then have "e \<le> 0" if "status_convention core pdev"
    using that clock(2) clock_info_status by simp
  then show ?thesis using clock by (auto simp: probe_calls_def mandatory_def)
next
  case (regulator h e)
  have "\<forall>np. of_node (dev h) = Some np \<longrightarrow> of_convention np" if "status_convention core pdev"
    using that regulator(1)
    by (simp add: status_convention_def same_device_def split: option.splits)
  then have "e \<le> 0" if "status_convention core pdev"
    using that regulator(2) regulator_info_status by simp
  then show ?thesis using regulator by (auto simp: probe_calls_def mandatory_def)
next
  case (reset hr)
  have "PTR_ERR (devm_reset_control_get (pdev_dev pdev) ''core_reset'') \<noteq> 0"
    using reset(3) by (simp add: IS_ERR_def PTR_ERR_def)
  then show ?thesis using reset(3-) by (auto simp: probe_calls_def mandatory_def)
next
  case (extcon hr e4)
  have "PTR_ERR (extcon_get_edev_by_phandle (pdev_dev pdev) 0) < 0"
    using extcon(4) by (simp add: IS_ERR_def PTR_ERR_def)
  then show ?thesis using extcon(3-) by (auto simp: probe_calls_def mandatory_def)
next
  case (init hr e h e4)
  have "e \<le> 0" if "status_convention core pdev"
    using that init(5) by (simp add: status_convention_def core_convention_def)
  then show ?thesis using init(3-) by (auto simp: probe_calls_def mandatory_def)
next
  case (attached hr h e4)
  then show ?thesis by (auto simp: probe_calls_def mandatory_def)
qed

text \<open>
  C1. The claim asks that on such an abort the partially constructed adapter be
  fully released, and here the code falls short of it. On the description with
  \<open>vcc-supply\<close> and no \<open>vcc-max-microamp\<close> the regulator stage fails with
  \<open>-EINVAL\<close> and the probe leaves through \<open>dealloc_host\<close>, as the claim says.
  By then \<open>ufshcd_populate_vreg\<close> has allocated the descriptor with
  \<open>devm_kzalloc\<close> and the copy of the name with \<open>kstrdup\<close>. The descriptor
  goes with the device; the copy of the name does not, and no descriptor of the
  adapter that \<open>ufshcd_dealloc_host\<close> receives points to it: it is still allocated
  after the abort and after the release of the device's memory.
\<close>

theorem probe_abort_keeps_name_copy:
  "mandatory Parse_regulator_info
   \<and> probe_calls ufs_h core_ok (dt_pdev dt_vcc_no_current) 0 =
       [(Parse_clock_info, 0), (Parse_regulator_info, - EINVAL), (Ufshcd_dealloc_host, 0)]
   \<and> fst (ufshcd_pltfrm_init ufs_h core_ok (dt_pdev dt_vcc_no_current) 0) = - EINVAL
   \<and> drvdata (snd (ufshcd_pltfrm_init ufs_h core_ok (dt_pdev dt_vcc_no_current) 0)) = None
   \<and> kmem (pdev_dev (dt_pdev dt_vcc_no_current)) = []
   \<and> kmem (pdev_dev (snd (ufshcd_pltfrm_init ufs_h core_ok (dt_pdev dt_vcc_no_current) 0)))
       = [Devm_block 0, Kstrdup_copy 1 ''vcc'']
   \<and> kmem (devres_release_all
             (pdev_dev (snd (ufshcd_pltfrm_init ufs_h core_ok (dt_pdev dt_vcc_no_current) 0))))
       = [Kstrdup_copy 1 ''vcc'']
   \<and> vreg_info (snd (ufshcd_parse_regulator_info ufs_h
                        (snd (ufshcd_parse_clock_info
                               (hba_zero (dt_device dt_vcc_no_current))))))
       = \<lparr>vcc = None, vccq = None, vccq2 = None, vdd_hba = None\<rparr>
   \<and> clk_list_head (snd (ufshcd_parse_regulator_info ufs_h
                            (snd (ufshcd_parse_clock_info
                                   (hba_zero (dt_device dt_vcc_no_current))))))
       = []"
  by (simp add: eval_defs dt_vcc_no_current_def mandatory_def devres_release_all_def)

text \<open>
  C2, as the code has it. When the reset control cannot be resolved, the parser
  prints the error, leaves \<open>core_reset\<close> at \<open>NULL\<close> and returns the negative
  status; the probe then fails: it never gets past the reset stage, publishes no
  driver data, and, once the regulators are parsed, returns the status of the reset
  stage and releases the adapter.
\<close>

theorem reset_failure_aborts_probe:
  assumes err: "IS_ERR (devm_reset_control_get (pdev_dev pdev) ''core_reset'')"
    and hba: "dev hba = pdev_dev pdev"
  shows "fst (ufshcd_parse_reset_info hba)
           = PTR_ERR (devm_reset_control_get (pdev_dev pdev) ''core_reset'')
         \<and> fst (ufshcd_parse_reset_info hba) < 0
         \<and> core_reset (snd (ufshcd_parse_reset_info hba)) = NULL
         \<and> klog (dev (snd (ufshcd_parse_reset_info hba))) =
             klog (dev hba) @
             [(KERN_ERR, ''core_reset unavailable,err = %d'',
               [D (PTR_ERR (devm_reset_control_get (pdev_dev pdev) ''core_reset''))])]
         \<and> fst (ufshcd_pltfrm_init k core pdev variant) \<noteq> 0
         \<and> drvdata (snd (ufshcd_pltfrm_init k core pdev variant)) = drvdata pdev
         \<and> set (map fst (probe_calls k core pdev variant))
             \<subseteq> {Parse_clock_info, Parse_regulator_info, Parse_reset_info, Ufshcd_dealloc_host}
         \<and> ((Parse_regulator_info, 0) \<in> set (probe_calls k core pdev variant) \<longrightarrow>
              fst (ufshcd_pltfrm_init k core pdev variant)
                = PTR_ERR (devm_reset_control_get (pdev_dev pdev) ''core_reset'')
              \<and> probe_calls k core pdev variant =
                  [(Parse_clock_info, 0), (Parse_regulator_info, 0),
                   (Parse_reset_info,
                    PTR_ERR (devm_reset_control_get (pdev_dev pdev) ''core_reset'')),
                   (Ufshcd_dealloc_host, 0)])"
proof -
  have neg: "PTR_ERR (devm_reset_control_get (pdev_dev pdev) ''core_reset'') < 0"
    using err by (simp add: IS_ERR_def PTR_ERR_def)
  have parser: "fst (ufshcd_parse_reset_info hba)
           = PTR_ERR (devm_reset_control_get (pdev_dev pdev) ''core_reset'')
         \<and> core_reset (snd (ufshcd_parse_reset_info hba)) = NULL
         \<and> klog (dev (snd (ufshcd_parse_reset_info hba))) =
             klog (dev hba) @
             [(KERN_ERR, ''core_reset unavailable,err = %d'',
               [D (PTR_ERR (devm_reset_control_get (pdev_dev pdev) ''core_reset''))])]"
    using err hba
    by (simp add: ufshcd_parse_reset_info_def Let_def dev_err_def dev_printk_def)
  have probe: "fst (ufshcd_pltfrm_init k core pdev variant) \<noteq> 0
         \<and> drvdata (snd (ufshcd_pltfrm_init k core pdev variant)) = drvdata pdev
         \<and> set (map fst (probe_calls k core pdev variant))
             \<subseteq> {Parse_clock_info, Parse_regulator_info, Parse_reset_info, Ufshcd_dealloc_host}
         \<and> ((Parse_regulator_info, 0) \<in> set (probe_calls k core pdev variant) \<longrightarrow>
              fst (ufshcd_pltfrm_init k core pdev variant)
                = PTR_ERR (devm_reset_control_get (pdev_dev pdev) ''core_reset'')
              \<and> probe_calls k core pdev variant =
                  [(Parse_clock_info, 0), (Parse_regulator_info, 0),
                   (Parse_reset_info,
                    PTR_ERR (devm_reset_control_get (pdev_dev pdev) ''core_reset'')),
                   (Ufshcd_dealloc_host, 0)])"
    using err neg
    by (cases rule: probe_cases [of k core pdev variant])
       (simp_all add: probe_calls_def)
  show ?thesis using parser probe neg by simp
qed

theorem reset_failure_aborts_probe_witness:
  "IS_ERR (devm_reset_control_get (pdev_dev dt_pdev_no_reset) ''core_reset'')
   \<and> dev (hba_zero (pdev_dev dt_pdev_no_reset)) = pdev_dev dt_pdev_no_reset
   \<and> fst (ufshcd_parse_reset_info (hba_zero (pdev_dev dt_pdev_no_reset))) = - ENOENT
   \<and> core_reset (snd (ufshcd_parse_reset_info (hba_zero (pdev_dev dt_pdev_no_reset)))) = NULL
   \<and> (Parse_regulator_info, 0) \<in> set (probe_calls ufs_h core_ok dt_pdev_no_reset 0)
   \<and> fst (ufshcd_pltfrm_init ufs_h core_ok dt_pdev_no_reset 0) = - ENOENT
   \<and> drvdata (snd (ufshcd_pltfrm_init ufs_h core_ok dt_pdev_no_reset 0)) = None
   \<and> probe_calls ufs_h core_ok dt_pdev_no_reset 0 =
       [(Parse_clock_info, 0), (Parse_regulator_info, 0), (Parse_reset_info, - ENOENT),
        (Ufshcd_dealloc_host, 0)]"
proof -
  have h1: "IS_ERR (devm_reset_control_get (pdev_dev dt_pdev_no_reset) ''core_reset'')"
    by (simp add: dt_pdev_no_reset_def IS_ERR_def MAX_ERRNO_def ENOENT_def)
  have h2: "dev (hba_zero (pdev_dev dt_pdev_no_reset)) = pdev_dev dt_pdev_no_reset"
    by (simp add: hba_zero_def)
  have h3: "PTR_ERR (devm_reset_control_get (pdev_dev dt_pdev_no_reset) ''core_reset'')
              = - ENOENT"
    by (simp add: dt_pdev_no_reset_def PTR_ERR_def)
  have h4: "(Parse_regulator_info, 0) \<in> set (probe_calls ufs_h core_ok dt_pdev_no_reset 0)"
    by (simp add: eval_defs dt_pdev_no_reset_def)
  have h5: "drvdata dt_pdev_no_reset = None"
    by (simp add: dt_pdev_no_reset_def dt_pdev_def)
  show ?thesis
    using h1 h2 h4
      reset_failure_aborts_probe [OF h1 h2, where k = ufs_h and core = core_ok and variant = 0]
    by (simp add: h3 h5)
qed

text \<open>
  C2 as stated fails: on a device whose reset control is missing (\<open>-ENOENT\<close>)
  and where everything else succeeds, the probe returns \<open>-ENOENT\<close> right after the
  reset stage and runs no later stage.
\<close>

theorem reset_failure_counterexample:
  "IS_ERR (devm_reset_control_get (pdev_dev dt_pdev_no_reset) ''core_reset'')
   \<and> fst (ufshcd_pltfrm_init ufs_h core_ok dt_pdev_no_reset 0) = - ENOENT
   \<and> drvdata (snd (ufshcd_pltfrm_init ufs_h core_ok dt_pdev_no_reset 0)) = None
   \<and> probe_calls ufs_h core_ok dt_pdev_no_reset 0 =
       [(Parse_clock_info, 0), (Parse_regulator_info, 0), (Parse_reset_info, - ENOENT),
        (Ufshcd_dealloc_host, 0)]"
  by (simp add: eval_defs dt_pdev_no_reset_def)

text \<open>
  C3, as the code has it. A role whose supply phandle is present and whose
  \<open><role>-fixed-regulator\<close> flag is not set fails to parse whenever
  \<open><role>-max-microamp\<close> cannot be read: \<open>ufshcd_populate_vreg\<close> returns the
  status of the failed read (or \<open>-ENOMEM\<close> when the descriptor could not even be
  allocated) and leaves \<open>*out_vreg\<close> as it was. For each of the four roles of the
  driver the failure is fatal: \<open>ufshcd_parse_regulator_info\<close> fails, and the probe
  of a device with that description fails, publishes no driver data and runs no
  stage after the regulators; once the clocks are parsed, it returns the status of
  the regulator stage and releases the adapter.
\<close>

theorem populate_vreg_max_microamp_mandatory:
  assumes np: "of_node d = Some np"
    and sup: "of_parse_phandle np (snprintf MAX_PROP_SIZE name ''-supply'') 0 \<noteq> NULL"
    and nfx: "\<not> of_property_read_bool np (snprintf MAX_PROP_SIZE name ''-fixed-regulator'')"
    and rd: "fst (of_property_read_u32 np (snprintf MAX_PROP_SIZE name ''-max-microamp'')) \<noteq> 0"
  shows "fst (ufshcd_populate_vreg k d name out_vreg) \<noteq> 0
         \<and> fst (snd (ufshcd_populate_vreg k d name out_vreg)) = out_vreg
         \<and> fst (ufshcd_populate_vreg k d name out_vreg) =
             (if kmalloc_ok d (nalloc d)
              then fst (of_property_read_u32 np (snprintf MAX_PROP_SIZE name ''-max-microamp''))
              else - ENOMEM)
         \<and> (name \<in> {''vdd-hba'', ''vcc'', ''vccq'', ''vccq2''} \<longrightarrow>
              (\<forall>hba. of_node (dev hba) = Some np \<longrightarrow>
                 fst (ufshcd_parse_regulator_info k hba) \<noteq> 0)
              \<and> (\<forall>core pdev variant. of_node (pdev_dev pdev) = Some np \<longrightarrow>
                   fst (ufshcd_pltfrm_init k core pdev variant) \<noteq> 0
                   \<and> drvdata (snd (ufshcd_pltfrm_init k core pdev variant)) = drvdata pdev
                   \<and> set (map fst (probe_calls k core pdev variant))
                       \<subseteq> {Parse_clock_info, Parse_regulator_info, Ufshcd_dealloc_host}
                   \<and> ((Parse_clock_info, 0) \<in> set (probe_calls k core pdev variant) \<longrightarrow>
                        (\<exists>e. e \<noteq> 0
                           \<and> fst (ufshcd_pltfrm_init k core pdev variant) = e
                           \<and> probe_calls k core pdev variant =
                               [(Parse_clock_info, 0), (Parse_regulator_info, e),
                                (Ufshcd_dealloc_host, 0)]))))"
proof -
  have role: "fst (ufshcd_populate_vreg k d name out_vreg) \<noteq> 0
         \<and> fst (snd (ufshcd_populate_vreg k d name out_vreg)) = out_vreg
         \<and> fst (ufshcd_populate_vreg k d name out_vreg) =
             (if kmalloc_ok d (nalloc d)
              then fst (of_property_read_u32 np (snprintf MAX_PROP_SIZE name ''-max-microamp''))
              else - ENOMEM)"
    using assms by (auto simp: vreg_defs ENOMEM_def)
  have stage: "fst (ufshcd_parse_regulator_info k hba) \<noteq> 0"
    if "name \<in> {''vdd-hba'', ''vcc'', ''vccq'', ''vccq2''}" "of_node (dev hba) = Some np"
    for hba
    using that(2,1) sup nfx rd by (rule regulator_info_unreadable)
  have probe: "fst (ufshcd_pltfrm_init k core pdev variant) \<noteq> 0
      \<and> drvdata (snd (ufshcd_pltfrm_init k core pdev variant)) = drvdata pdev
      \<and> set (map fst (probe_calls k core pdev variant))
          \<subseteq> {Parse_clock_info, Parse_regulator_info, Ufshcd_dealloc_host}
      \<and> ((Parse_clock_info, 0) \<in> set (probe_calls k core pdev variant) \<longrightarrow>
           (\<exists>e. e \<noteq> 0
              \<and> fst (ufshcd_pltfrm_init k core pdev variant) = e
              \<and> probe_calls k core pdev variant =
                  [(Parse_clock_info, 0), (Parse_regulator_info, e),
                   (Ufshcd_dealloc_host, 0)]))"
    if role: "name \<in> {''vdd-hba'', ''vcc'', ''vccq'', ''vccq2''}"
      and node: "of_node (pdev_dev pdev) = Some np"
    for core pdev variant
  proof -
    have never: False
      if "same_device (pdev_dev pdev) (dev hr)" "fst (ufshcd_parse_regulator_info k hr) = 0"
      for hr
    proof -
      have "of_node (dev hr) = Some np" using that(1) node by (simp add: same_device_def)
      then show False using stage [OF role] that(2) by simp
    qed
    show ?thesis
    proof (cases rule: probe_cases [of k core pdev variant])
      case early
      then show ?thesis by (simp add: probe_calls_def)
    next
      case (clock h e)
      then show ?thesis by (simp add: probe_calls_def)
    next
      case (regulator h e)
      then show ?thesis by (simp add: probe_calls_def)
    next
      case (reset hr)
      then show ?thesis using never by blast
    next
      case (extcon hr e4)
      then show ?thesis using never by blast
    next
      case (init hr e h e4)
      then show ?thesis using never by blast
    next
      case (attached hr h e4)
      then show ?thesis using never by blast
    qed
  qed
  show ?thesis using role stage probe by blast
qed

theorem populate_vreg_max_microamp_mandatory_witness:
  "of_node (dt_device dt_vccq2_plain) = Some (dt_node dt_vccq2_plain)
   \<and> of_parse_phandle (dt_node dt_vccq2_plain) ''vccq2-supply'' 0 \<noteq> NULL
   \<and> \<not> of_property_read_bool (dt_node dt_vccq2_plain) ''vccq2-fixed-regulator''
   \<and> of_property_read_u32 (dt_node dt_vccq2_plain) ''vccq2-max-microamp'' = (- EINVAL, 0)
   \<and> fst (ufshcd_populate_vreg ufs_h (dt_device dt_vccq2_plain) ''vccq2'' None) = - EINVAL
   \<and> fst (snd (ufshcd_populate_vreg ufs_h (dt_device dt_vccq2_plain) ''vccq2'' None)) = None
   \<and> ''vccq2'' \<in> {''vdd-hba'', ''vcc'', ''vccq'', ''vccq2''}
   \<and> of_node (dev (hba_zero (dt_device dt_vccq2_plain))) = Some (dt_node dt_vccq2_plain)
   \<and> fst (ufshcd_parse_regulator_info ufs_h (hba_zero (dt_device dt_vccq2_plain))) = - EINVAL
   \<and> of_node (pdev_dev (dt_pdev dt_vccq2_plain)) = Some (dt_node dt_vccq2_plain)
   \<and> (Parse_clock_info, 0) \<in> set (probe_calls ufs_h core_ok (dt_pdev dt_vccq2_plain) 0)
   \<and> fst (ufshcd_pltfrm_init ufs_h core_ok (dt_pdev dt_vccq2_plain) 0) = - EINVAL
   \<and> drvdata (snd (ufshcd_pltfrm_init ufs_h core_ok (dt_pdev dt_vccq2_plain) 0)) = None
   \<and> probe_calls ufs_h core_ok (dt_pdev dt_vccq2_plain) 0 =
       [(Parse_clock_info, 0), (Parse_regulator_info, - EINVAL), (Ufshcd_dealloc_host, 0)]"
proof -
  have n: "snprintf MAX_PROP_SIZE ''vccq2'' ''-supply'' = ''vccq2-supply''"
    "snprintf MAX_PROP_SIZE ''vccq2'' ''-fixed-regulator'' = ''vccq2-fixed-regulator''"
    "snprintf MAX_PROP_SIZE ''vccq2'' ''-max-microamp'' = ''vccq2-max-microamp''"
    by (simp_all add: snprintf_def MAX_PROP_SIZE_def)
  have h1: "of_node (dt_device dt_vccq2_plain) = Some (dt_node dt_vccq2_plain)"
    by (simp add: dt_device_def)
  have h2: "of_parse_phandle (dt_node dt_vccq2_plain)
              (snprintf MAX_PROP_SIZE ''vccq2'' ''-supply'') 0 \<noteq> NULL"
    by (simp add: n dt_node_def dt_vccq2_plain_def NULL_def)
  have h3: "\<not> of_property_read_bool (dt_node dt_vccq2_plain)
                (snprintf MAX_PROP_SIZE ''vccq2'' ''-fixed-regulator'')"
    by (simp add: n dt_node_def dt_vccq2_plain_def)
  have h4: "of_property_read_u32 (dt_node dt_vccq2_plain) ''vccq2-max-microamp'' = (- EINVAL, 0)"
    by (simp add: dt_node_def dt_vccq2_plain_def)
  have h4': "fst (of_property_read_u32 (dt_node dt_vccq2_plain)
               (snprintf MAX_PROP_SIZE ''vccq2'' ''-max-microamp'')) \<noteq> 0"
    by (simp add: n h4 EINVAL_def)
  have ok: "kmalloc_ok (dt_device dt_vccq2_plain) (nalloc (dt_device dt_vccq2_plain))"
    by (simp add: dt_device_def)
  have role: "''vccq2'' \<in> {''vdd-hba'', ''vcc'', ''vccq'', ''vccq2''}" by simp
  have g1: "of_node (dev (hba_zero (dt_device dt_vccq2_plain))) = Some (dt_node dt_vccq2_plain)"
    by (simp add: hba_zero_def dt_device_def)
  have g2: "fst (ufshcd_parse_regulator_info ufs_h (hba_zero (dt_device dt_vccq2_plain)))
              = - EINVAL"
    by (simp add: eval_defs dt_vccq2_plain_def)
  have g3: "of_node (pdev_dev (dt_pdev dt_vccq2_plain)) = Some (dt_node dt_vccq2_plain)"
    by (simp add: dt_pdev_def dt_device_def)
  have g4: "probe_calls ufs_h core_ok (dt_pdev dt_vccq2_plain) 0 =
       [(Parse_clock_info, 0), (Parse_regulator_info, - EINVAL), (Ufshcd_dealloc_host, 0)]"
    by (simp add: eval_defs dt_vccq2_plain_def)
  have g5: "drvdata (dt_pdev dt_vccq2_plain) = None" by (simp add: dt_pdev_def)
  note inst = populate_vreg_max_microamp_mandatory
    [OF h1 h2 h3 h4', where k = ufs_h and out_vreg = None]
  have t1: "fst (ufshcd_populate_vreg ufs_h (dt_device dt_vccq2_plain) ''vccq2'' None) = - EINVAL"
    using inst ok h4 by (simp add: n)
  have t2: "fst (snd (ufshcd_populate_vreg ufs_h (dt_device dt_vccq2_plain) ''vccq2'' None)) = None"
    using inst by simp
  have t3: "fst (ufshcd_pltfrm_init ufs_h core_ok (dt_pdev dt_vccq2_plain) 0) = - EINVAL
            \<and> drvdata (snd (ufshcd_pltfrm_init ufs_h core_ok (dt_pdev dt_vccq2_plain) 0)) = None"
  proof -
    have run: "drvdata (snd (ufshcd_pltfrm_init ufs_h core_ok (dt_pdev dt_vccq2_plain) 0))
                 = drvdata (dt_pdev dt_vccq2_plain)
               \<and> ((Parse_clock_info, 0)
                     \<in> set (probe_calls ufs_h core_ok (dt_pdev dt_vccq2_plain) 0) \<longrightarrow>
                    (\<exists>e. e \<noteq> 0
                       \<and> fst (ufshcd_pltfrm_init ufs_h core_ok (dt_pdev dt_vccq2_plain) 0) = e
                       \<and> probe_calls ufs_h core_ok (dt_pdev dt_vccq2_plain) 0 =
                           [(Parse_clock_info, 0), (Parse_regulator_info, e),
                            (Ufshcd_dealloc_host, 0)]))"
      using inst role g3 by blast
    have "(Parse_clock_info, 0) \<in> set (probe_calls ufs_h core_ok (dt_pdev dt_vccq2_plain) 0)"
      by (simp add: g4)
    with run obtain e where
      e: "fst (ufshcd_pltfrm_init ufs_h core_ok (dt_pdev dt_vccq2_plain) 0) = e"
        "probe_calls ufs_h core_ok (dt_pdev dt_vccq2_plain) 0 =
           [(Parse_clock_info, 0), (Parse_regulator_info, e), (Ufshcd_dealloc_host, 0)]"
      by blast
    from e(2) have "e = - EINVAL" by (simp add: g4)
    with e(1) run g5 show ?thesis by simp
  qed
  show ?thesis
    using h1 h2 h3 h4 role g1 g2 g3 g4 t1 t2 t3 by (simp add: n)
qed

text \<open>
  C3 as stated fails for a fixed regulator: with \<open>vcc-supply\<close> and
  \<open>vcc-fixed-regulator\<close> present and no \<open>vcc-max-microamp\<close>, the parser returns 0
  and a descriptor, since the source leaves before it reads the current.
\<close>

theorem max_microamp_counterexample:
  "of_parse_phandle (dt_node dt_vcc_fixed) ''vcc-supply'' 0 \<noteq> NULL
   \<and> of_property_read_u32 (dt_node dt_vcc_fixed) ''vcc-max-microamp'' = (- EINVAL, 0)
   \<and> fst (ufshcd_populate_vreg ufs_h (dt_device dt_vcc_fixed) ''vcc'' None) = 0
   \<and> fst (snd (ufshcd_populate_vreg ufs_h (dt_device dt_vcc_fixed) ''vcc'' None)) =
       Some \<lparr>vreg_name = Some ''vcc'', min_uV = 0, max_uV = 0, low_voltage_sup = False,
             min_uA = 0, max_uA = 0\<rparr>"
  by (simp add: vreg_defs snprintf_vcc dt_defs dt_vcc_fixed_def)

text \<open>
  C4, as the code has it. The steps of every probe run, the release of the adapter
  left aside, are an initial segment of one fixed order: clocks, regulators, reset,
  pin control, then reference-clock frequency, power levels, gear limits, command
  timeout and force-gear-four, then the external connector, then lanes per
  direction, then the controller-core initialiser.
\<close>

theorem probe_step_order:
  "calls (snd (ufshcd_pltfrm_init k core pdev variant))
     = calls pdev @ probe_calls k core pdev variant
   \<and> prefix (filter (\<lambda>s. s \<noteq> Ufshcd_dealloc_host)
               (map fst (probe_calls k core pdev variant))) probe_order"
  by (cases rule: probe_cases [of k core pdev variant])
     (simp_all add: probe_calls_def probe_order_def)

text \<open>
  C4 as stated fails: the external connector is not resolved before the scalar
  parsers. On the empty description, the steps run before it include the
  reference-clock frequency, the power levels, the gear limits, the command timeout
  and force-gear-four.
\<close>

theorem probe_order_counterexample:
  "probe_calls ufs_h core_ok (dt_pdev []) 0 =
     [(Parse_clock_info, 0), (Parse_regulator_info, 0), (Parse_reset_info, 0),
      (Parse_pinctrl_info, 0), (Parse_dev_ref_clk_freq, 0), (Parse_pm_levels, 0),
      (Parse_gear_limits, 0), (Parse_cmd_timeout, 0), (Parse_force_g4_flag, 0),
      (Parse_extcon_info, 0), (Init_lanes_per_dir, 0), (Ufshcd_init, 0),
      (Platform_set_drvdata, 0), (Pm_runtime_set_active, 0), (Pm_runtime_enable, 0)]
   \<and> takeWhile (\<lambda>s. s \<noteq> Parse_extcon_info) (map fst (probe_calls ufs_h core_ok (dt_pdev []) 0)) =
     [Parse_clock_info, Parse_regulator_info, Parse_reset_info, Parse_pinctrl_info,
      Parse_dev_ref_clk_freq, Parse_pm_levels, Parse_gear_limits, Parse_cmd_timeout,
      Parse_force_g4_flag]"
proof -
  have run: "probe_calls ufs_h core_ok (dt_pdev []) 0 =
     [(Parse_clock_info, 0), (Parse_regulator_info, 0), (Parse_reset_info, 0),
      (Parse_pinctrl_info, 0), (Parse_dev_ref_clk_freq, 0), (Parse_pm_levels, 0),
      (Parse_gear_limits, 0), (Parse_cmd_timeout, 0), (Parse_force_g4_flag, 0),
      (Parse_extcon_info, 0), (Init_lanes_per_dir, 0), (Ufshcd_init, 0),
      (Platform_set_drvdata, 0), (Pm_runtime_set_active, 0), (Pm_runtime_enable, 0)]"
    by (simp add: eval_defs)
  show ?thesis by (simp only: run) simp
qed

end
